theory Spec2Isabelle
  imports Main "HOL-Library.Sublist"
begin

section \<open>JavaScript values as the gateway sees them\<close>

text \<open>
  The tool-call endpoint receives its request body through \<open>request.json()\<close> and handles
  it untyped (\<open>Record<string, any>\<close>), so the inbound payload is modelled as a JSON value.
  A value that may be \<open>undefined\<close> is a \<open>json option\<close> (\<open>None\<close> is \<open>undefined\<close>).
  Numbers are mathematical integers (fractions are not modelled); an integer beyond the
  safe integers stands for the double the parser yields, and its text is the runtime's
  (\<open>number_to_string\<close> below). Strings are lists of 8-bit characters, a character beyond
  ASCII being its UTF-8 bytes. A \<open>JObj\<close> lists the own properties of an object in
  enumeration order.
\<close>

datatype json =
    JNull
  | JBool bool
  | JNum int
  | JStr string
  | JArr "json list"
  | JObj "(string \<times> json) list"

text \<open>Truthiness, as tested by \<open>||\<close>, \<open>!\<close>, \<open>if\<close> and \<open>?:\<close>.\<close>

fun truthy :: "json \<Rightarrow> bool" where
  "truthy JNull = False"
| "truthy (JBool b) = b"
| "truthy (JNum n) = (n \<noteq> 0)"
| "truthy (JStr s) = (s \<noteq> [])"
| "truthy (JArr xs) = True"
| "truthy (JObj kvs) = True"

definition truthy_opt :: "json option \<Rightarrow> bool" where
  "truthy_opt v = (case v of None \<Rightarrow> False | Some j \<Rightarrow> truthy j)"

text \<open>\<open>v || d\<close> for a default \<open>d\<close> that is always defined.\<close>

definition js_or :: "json option \<Rightarrow> json \<Rightarrow> json" where
  "js_or v d = (case v of None \<Rightarrow> d | Some j \<Rightarrow> if truthy j then j else d)"

text \<open>
  Reading a property \<open>v.k\<close> of a value that is neither \<open>null\<close> nor \<open>undefined\<close>. Only the
  names the gateway reads are looked up (\<open>method\<close>, \<open>params\<close>, \<open>id\<close>, \<open>name\<close>, \<open>arguments\<close>,
  \<open>uri\<close>, \<open>query\<close>, \<open>limit\<close>, \<open>handle\<close>, \<open>variant_ids\<close>, \<open>quantities\<close>, \<open>topic\<close>); none of them is
  a property of a string, number, boolean or array.
\<close>

fun get :: "json \<Rightarrow> string \<Rightarrow> json option" where
  "get (JObj kvs) k = map_of kvs k"
| "get v k = None"

text \<open>Plain decimal rendering of an integer.\<close>

fun show_nat :: "nat \<Rightarrow> string" where
  "show_nat n =
     (if n < 10 then [''0123456789'' ! n]
      else show_nat (n div 10) @ [''0123456789'' ! (n mod 10)])"

declare show_nat.simps [simp del]

definition show_int :: "int \<Rightarrow> string" where
  "show_int n = (if n < 0 then ''-'' @ show_nat (nat (- n)) else show_nat (nat n))"

text \<open>
  \<open>Number::toString\<close>. Up to \<open>Number.MAX_SAFE_INTEGER\<close> in absolute value an integer is
  printed in plain decimal. Beyond it the text is the shortest one that reads back as the
  same double, in exponent form from \<open>1e21\<close> on (\<open>1e+21\<close>); there it is left to the runtime,
  the parameter \<open>big\<close>.
\<close>

definition MAX_SAFE_INTEGER :: int where
  "MAX_SAFE_INTEGER = 9007199254740991"

definition number_to_string :: "(int \<Rightarrow> string) \<Rightarrow> int \<Rightarrow> string" where
  "number_to_string big n =
     (if - MAX_SAFE_INTEGER \<le> n \<and> n \<le> MAX_SAFE_INTEGER then show_int n else big n)"

text \<open>\<open>Array.prototype.join\<close> on strings.\<close>

fun join :: "string \<Rightarrow> string list \<Rightarrow> string" where
  "join sep [] = []"
| "join sep [x] = x"
| "join sep (x # y # ys) = x @ sep @ join sep (y # ys)"

text \<open>
  \<open>ToString\<close>, as applied by a template literal. An array joins its elements with commas,
  \<open>null\<close> elements giving the empty string. An object gives \<open>[object Object]\<close>, unless it has
  an own property \<open>toString\<close>: a JSON value is never callable, the inherited \<open>valueOf\<close>
  returns the object itself, and the conversion raises a TypeError (\<open>None\<close>).
\<close>

fun to_string :: "(int \<Rightarrow> string) \<Rightarrow> json \<Rightarrow> string option"
  and elems_to_strings :: "(int \<Rightarrow> string) \<Rightarrow> json list \<Rightarrow> string list option" where
  "to_string big JNull = Some ''null''"
| "to_string big (JBool b) = Some (if b then ''true'' else ''false'')"
| "to_string big (JNum n) = Some (number_to_string big n)"
| "to_string big (JStr s) = Some s"
| "to_string big (JArr xs) = map_option (join '','') (elems_to_strings big xs)"
| "to_string big (JObj kvs) =
     (if ''toString'' \<in> fst ` set kvs then None else Some ''[object Object]'')"
| "elems_to_strings big [] = Some []"
| "elems_to_strings big (x # xs) =
     (case (if x = JNull then Some [] else to_string big x) of
        None \<Rightarrow> None
      | Some s \<Rightarrow>
          (case elems_to_strings big xs of None \<Rightarrow> None | Some ss \<Rightarrow> Some (s # ss)))"

definition template :: "(int \<Rightarrow> string) \<Rightarrow> json option \<Rightarrow> string option" where
  "template big v = (case v of None \<Rightarrow> Some ''undefined'' | Some j \<Rightarrow> to_string big j)"

text \<open>\<open>JSON.stringify\<close>: the quoting of a string and the rendering of a value.\<close>

definition hex_digit :: "nat \<Rightarrow> char" where
  "hex_digit n = ''0123456789abcdef'' ! n"

definition quote_char :: "char \<Rightarrow> string" where
  "quote_char c =
     (if c = CHR 0x22 then [CHR 0x5C, CHR 0x22]
      else if c = CHR 0x5C then [CHR 0x5C, CHR 0x5C]
      else if c = CHR 0x08 then [CHR 0x5C, CHR ''b'']
      else if c = CHR 0x0C then [CHR 0x5C, CHR ''f'']
      else if c = CHR 0x0A then [CHR 0x5C, CHR ''n'']
      else if c = CHR 0x0D then [CHR 0x5C, CHR ''r'']
      else if c = CHR 0x09 then [CHR 0x5C, CHR ''t'']
      else if (of_char c :: nat) < 32
        then [CHR 0x5C, CHR ''u'', CHR ''0'', CHR ''0'',
              hex_digit (of_char c div 16), hex_digit (of_char c mod 16)]
      else [c])"

definition quote :: "string \<Rightarrow> string" where
  "quote s = [CHR 0x22] @ concat (map quote_char s) @ [CHR 0x22]"

fun stringify :: "(int \<Rightarrow> string) \<Rightarrow> json \<Rightarrow> string"
  and stringify_elems :: "(int \<Rightarrow> string) \<Rightarrow> json list \<Rightarrow> string list"
  and stringify_members :: "(int \<Rightarrow> string) \<Rightarrow> (string \<times> json) list \<Rightarrow> string list" where
  "stringify big JNull = ''null''"
| "stringify big (JBool b) = (if b then ''true'' else ''false'')"
| "stringify big (JNum n) = number_to_string big n"
| "stringify big (JStr s) = quote s"
| "stringify big (JArr xs) = ''['' @ join '','' (stringify_elems big xs) @ '']''"
| "stringify big (JObj kvs) = ''{'' @ join '','' (stringify_members big kvs) @ ''}''"
| "stringify_elems big [] = []"
| "stringify_elems big (x # xs) = stringify big x # stringify_elems big xs"
| "stringify_members big [] = []"
| "stringify_members big ((k, v) # kvs) =
     (quote k @ '':'' @ stringify big v) # stringify_members big kvs"

text \<open>
  An object literal as it is serialised: a member whose value is \<open>undefined\<close> is left out.
\<close>

fun obj :: "(string \<times> json option) list \<Rightarrow> (string \<times> json) list" where
  "obj [] = []"
| "obj ((k, None) # ms) = obj ms"
| "obj ((k, Some v) # ms) = (k, v) # obj ms"

text \<open>
  \<open>q[i]\<close> for a value \<open>q\<close> that is not \<open>null\<close>: an array element, a one-character string,
  the property of an object named by the decimal index, and \<open>undefined\<close> otherwise.
\<close>

fun js_index :: "json \<Rightarrow> nat \<Rightarrow> json option" where
  "js_index (JArr xs) i = (if i < length xs then Some (xs ! i) else None)"
| "js_index (JStr s) i = (if i < length s then Some (JStr [s ! i]) else None)"
| "js_index (JObj kvs) i = map_of kvs (show_nat i)"
| "js_index v i = None"

text \<open>\<open>String.prototype.replace\<close> with a string pattern: the first occurrence only.\<close>

fun replace_first :: "string \<Rightarrow> string \<Rightarrow> string \<Rightarrow> string" where
  "replace_first pat rep [] = (if pat = [] then rep else [])"
| "replace_first pat rep (c # cs) =
     (if prefix pat (c # cs) then rep @ drop (length pat) (c # cs)
      else c # replace_first pat rep cs)"

text \<open>\<open>encodeURIComponent\<close> on a byte string.\<close>

definition uri_unreserved :: "char \<Rightarrow> bool" where
  "uri_unreserved c =
     (c \<in> set ''ABCDEFGHIJKLMNOPQRSTUVWXYZabcdefghijklmnopqrstuvwxyz0123456789-_.!~*()''
      \<or> c = CHR 0x27)"

definition HEX_digit :: "nat \<Rightarrow> char" where
  "HEX_digit n = ''0123456789ABCDEF'' ! n"

definition encodeURIComponent :: "string \<Rightarrow> string" where
  "encodeURIComponent s =
     concat (map (\<lambda>c. if uri_unreserved c then [c]
                       else [CHR ''%'', HEX_digit (of_char c div 16), HEX_digit (of_char c mod 16)]) s)"

section \<open>Errors\<close>

text \<open>
  Everything the code can throw. \<open>Error m\<close> is \<open>new Error(m)\<close> raised by the gateway
  itself. A \<open>Fault\<close> is an error object raised by the runtime or by a library; the text of
  its message is theirs and is a parameter of the model. \<open>NonError\<close> is a thrown value
  that is not an instance of \<open>Error\<close>.
\<close>

datatype fault =
    TypeError
  | SyntaxError
  | PrismaValidationError
  | PrismaRecordNotFound

datatype thrown =
    Error string
  | Fault fault
  | NonError

section \<open>Data model\<close>

record session =
  shop :: string
  accessToken :: string

record profile =
  profile_id :: string
  profile_shop :: string
  isEnabled :: bool
  brandVoice :: string
  returnPolicy :: "string option"
  shippingInfo :: "string option"
  minFreeShipping :: int
  updatedAt :: "string option"

text \<open>
  \<open>potentialValue\<close> keeps the decimal text that the code hands to \<open>parseFloat\<close>;
  \<open>updatedAt\<close> above keeps the ISO-8601 text of the date.
\<close>

record interaction =
  interaction_id :: string
  merchantId :: string
  userIntent :: string
  inputQuery :: "string option"
  checkoutId :: "string option"
  checkoutUrl :: "string option"
  potentialValue :: "string option"
  userAgent :: "string option"

record missed_opportunity =
  mo_shop :: string
  searchTerm :: string
  mo_count :: int
  lastSeen :: nat

text \<open>
  Products and carts as the GraphQL selections of the client shape them: the answer of the
  upstream endpoint is taken to conform to the query it answers.
\<close>

record money =
  amount :: string
  currencyCode :: string

record image =
  url :: string
  altText :: "string option"

record variant =
  variant_id :: string
  variant_title :: string
  price :: string
  availableForSale :: bool
  sku :: "string option"

record product =
  product_id :: string
  title :: string
  description :: string
  handle :: string
  featuredImage :: "image option"
  minVariantPrice :: money
  maxVariantPrice :: money
  variants :: "variant list"

record cart =
  cart_id :: string
  cart_checkoutUrl :: string
  totalAmount :: money

record CheckoutResult =
  res_checkoutUrl :: string
  res_checkoutId :: string
  res_totalPrice :: string
  res_currencyCode :: string

record MerchantContext =
  ctx_shop :: string
  ctx_accessToken :: string
  ctx_brandVoice :: string
  ctx_returnPolicy :: "string option"
  ctx_shippingInfo :: "string option"
  ctx_minFreeShipping :: int

section \<open>The upstream GraphQL endpoint\<close>

datatype gql_query =
    SEARCH_PRODUCTS_QUERY
  | GET_PRODUCT_BY_HANDLE_QUERY
  | CREATE_CART_MUTATION

record gql_request =
  req_url :: string
  req_token :: string
  req_query :: gql_query
  req_variables :: json

text \<open>
  The \<open>data\<close> member of a GraphQL reply, by the root field it answers; \<open>NoData\<close> is
  \<open>data: null\<close>. The second component of \<open>CartCreateData\<close> is \<open>userErrors\<close>.
\<close>

datatype gql_data =
    NoData
  | ProductsData "product list"
  | ProductByHandleData "product option"
  | CartCreateData "cart option" "json list option"

record gql_reply =
  errors :: "json option"
  data :: gql_data

text \<open>An HTTP response; \<open>http_json\<close> is \<open>None\<close> when the body is not JSON.\<close>

record http_response =
  http_status :: nat
  statusText :: string
  http_json :: "gql_reply option"

definition ok :: "http_response \<Rightarrow> bool" where
  "ok r = (200 \<le> http_status r \<and> http_status r \<le> 299)"

datatype fetch_result =
    Rejected thrown
  | Responded http_response

section \<open>Environment and state\<close>

text \<open>
  The collaborators the code does not contain: the upstream endpoint (answering a request,
  given the requests sent before it), the message texts of runtime and library errors, the
  text the runtime prints for a number beyond the safe integers, the identifier the store
  mints for the n-th interaction row, the clock, and the process environment.
\<close>

record env =
  fetch :: "gql_request list \<Rightarrow> gql_request \<Rightarrow> fetch_result"
  fault_message :: "fault \<Rightarrow> string"
  number_text :: "int \<Rightarrow> string"
  new_id :: "nat \<Rightarrow> string"
  now :: nat
  SHOPIFY_APP_URL :: "string option"

text \<open>
  The store behind \<open>prisma\<close>, and the log of the requests sent upstream.
\<close>

record world =
  sessions :: "session list"
  profiles :: "profile list"
  interactions :: "interaction list"
  next_id :: nat
  missed :: "missed_opportunity list"
  outbox :: "gql_request list"

record response =
  status :: nat
  headers :: "(string \<times> string) list"
  body :: json

section \<open>Agent logic: the Catalog/Checkout client and the Interaction Recorder\<close>

definition executeShopifyGraphQL ::
  "env \<Rightarrow> string \<Rightarrow> string \<Rightarrow> gql_query \<Rightarrow> json \<Rightarrow> world \<Rightarrow> (thrown + gql_reply) \<times> world" where
  "executeShopifyGraphQL e shp token q vars w =
     (let req = \<lparr>req_url = ''https://'' @ shp @ ''/admin/api/2025-01/graphql.json'',
                 req_token = token, req_query = q, req_variables = vars\<rparr>;
          w' = w\<lparr>outbox := outbox w @ [req]\<rparr>
      in case fetch e (outbox w) req of
           Rejected t \<Rightarrow> (Inl t, w')
         | Responded r \<Rightarrow>
             if \<not> ok r
             then (Inl (Error (''Shopify API error: '' @ show_nat (http_status r) @ '' ''
                               @ statusText r)), w')
             else (case http_json r of
                     None \<Rightarrow> (Inl (Fault SyntaxError), w')
                   | Some d \<Rightarrow>
                       (case errors d of
                          None \<Rightarrow> (Inr d, w')
                        | Some errs \<Rightarrow>
                            if truthy errs
                            then (Inl (Error (''GraphQL errors: '' @ stringify (number_text e) errs)), w')
                            else (Inr d, w'))))"

definition searchProducts ::
  "env \<Rightarrow> string \<Rightarrow> string \<Rightarrow> json option \<Rightarrow> json option \<Rightarrow> world
     \<Rightarrow> (thrown + product list) \<times> world" where
  "searchProducts e shp token query limit w =
     (let first = (case limit of None \<Rightarrow> JNum 10 | Some l \<Rightarrow> l)
      in case executeShopifyGraphQL e shp token SEARCH_PRODUCTS_QUERY
                (JObj (obj [(''query'', query), (''first'', Some first)])) w of
           (Inl t, w') \<Rightarrow> (Inl t, w')
         | (Inr d, w') \<Rightarrow>
             (case data d of
                ProductsData nodes \<Rightarrow> (Inr nodes, w')
              | _ \<Rightarrow> (Inl (Fault TypeError), w')))"

definition getProductByHandle ::
  "env \<Rightarrow> string \<Rightarrow> string \<Rightarrow> json option \<Rightarrow> world \<Rightarrow> (thrown + product option) \<times> world" where
  "getProductByHandle e shp token hdl w =
     (case executeShopifyGraphQL e shp token GET_PRODUCT_BY_HANDLE_QUERY
             (JObj (obj [(''handle'', hdl)])) w of
        (Inl t, w') \<Rightarrow> (Inl t, w')
      | (Inr d, w') \<Rightarrow>
          (case data d of
             ProductByHandleData p \<Rightarrow> (Inr p, w')
           | _ \<Rightarrow> (Inl (Fault TypeError), w')))"

text \<open>
  The line items of a cart: \<open>variantIds.map((variantId, index) => ({variantId, quantity:
  quantities[index] || 1}))\<close>, as pairs of a variant and its quantity.
\<close>

definition lineItems :: "json list \<Rightarrow> json \<Rightarrow> (json \<times> json) list" where
  "lineItems variantIds quantities =
     map (\<lambda>(index, variantId). (variantId, js_or (js_index quantities index) (JNum 1)))
         (enumerate 0 variantIds)"

definition cart_input :: "json list \<Rightarrow> json \<Rightarrow> string \<Rightarrow> json" where
  "cart_input variantIds quantities interactionId =
     JObj [(''lines'',
            JArr (map (\<lambda>item. JObj [(''merchandiseId'', fst item), (''quantity'', snd item)])
                      (lineItems variantIds quantities))),
           (''attributes'',
            JArr [JObj [(''key'', JStr ''_source''), (''value'', JStr ''universal_agent_gateway'')],
                  JObj [(''key'', JStr ''_interaction_id''), (''value'', JStr interactionId)]]),
           (''note'', JStr ''Generated by AI Agent via Universal Agent Gateway'')]"

definition createCheckoutLink ::
  "env \<Rightarrow> string \<Rightarrow> string \<Rightarrow> json option \<Rightarrow> json \<Rightarrow> string \<Rightarrow> world
     \<Rightarrow> (thrown + CheckoutResult) \<times> world" where
  "createCheckoutLink e shp token variantIds quantities interactionId w =
     (case variantIds of
        Some (JArr vs) \<Rightarrow>
          if quantities = JNull \<and> vs \<noteq> [] then (Inl (Fault TypeError), w)
          else (case executeShopifyGraphQL e shp token CREATE_CART_MUTATION
                       (JObj [(''input'', cart_input vs quantities interactionId)]) w of
                  (Inl t, w') \<Rightarrow> (Inl t, w')
                | (Inr d, w') \<Rightarrow>
                    (case data d of
                       CartCreateData c userErrors \<Rightarrow>
                         (case userErrors of
                            Some (u # us) \<Rightarrow>
                              (Inl (Error (''Cart creation failed: '' @ stringify (number_text e) (JArr (u # us)))), w')
                          | _ \<Rightarrow>
                              (case c of
                                 None \<Rightarrow> (Inl (Fault TypeError), w')
                               | Some crt \<Rightarrow>
                                   (Inr \<lparr>res_checkoutUrl = cart_checkoutUrl crt,
                                         res_checkoutId = cart_id crt,
                                         res_totalPrice = amount (totalAmount crt),
                                         res_currencyCode = currencyCode (totalAmount crt)\<rparr>, w')))
                     | _ \<Rightarrow> (Inl (Fault TypeError), w')))
      | _ \<Rightarrow> (Inl (Fault TypeError), w))"

text \<open>
  \<open>prisma.agentInteraction.create\<close>. The column \<open>inputQuery\<close> is an optional string: the
  client rejects any other value before it reaches the store.
\<close>

definition logInteraction ::
  "env \<Rightarrow> string \<Rightarrow> string \<Rightarrow> json option \<Rightarrow> string option \<Rightarrow> string option \<Rightarrow> string option
     \<Rightarrow> string option \<Rightarrow> world \<Rightarrow> (thrown + string) \<times> world" where
  "logInteraction e mid intent q cid curl pv ua w =
     (let row = (\<lambda>text. \<lparr>interaction_id = new_id e (next_id w), merchantId = mid,
                          userIntent = intent, inputQuery = text, checkoutId = cid,
                          checkoutUrl = curl, potentialValue = pv, userAgent = ua\<rparr>);
          created = (\<lambda>text. (Inr (new_id e (next_id w)),
                              w\<lparr>interactions := interactions w @ [row text],
                                next_id := Suc (next_id w)\<rparr>))
      in case q of
           None \<Rightarrow> created None
         | Some JNull \<Rightarrow> created None
         | Some (JStr s) \<Rightarrow> created (Some s)
         | Some _ \<Rightarrow> (Inl (Fault PrismaValidationError), w))"

text \<open>
  \<open>prisma.missedOpportunity.upsert\<close> on the unique key (shop, searchTerm): one atomic
  increment-or-create. The schema of the store is not among the sources: a created row
  takes the time of its creation as \<open>lastSeen\<close>, and \<open>searchTerm\<close> is a string column, so that
  the client rejects any other value before it reaches the store.
\<close>

fun upsert_missed :: "string \<Rightarrow> string \<Rightarrow> nat \<Rightarrow> missed_opportunity list \<Rightarrow> missed_opportunity list" where
  "upsert_missed shp term t [] =
     [\<lparr>mo_shop = shp, searchTerm = term, mo_count = 1, lastSeen = t\<rparr>]"
| "upsert_missed shp term t (m # ms) =
     (if mo_shop m = shp \<and> searchTerm m = term
      then m\<lparr>mo_count := mo_count m + 1, lastSeen := t\<rparr> # ms
      else m # upsert_missed shp term t ms)"

definition trackMissedOpportunity ::
  "env \<Rightarrow> string \<Rightarrow> json option \<Rightarrow> world \<Rightarrow> (thrown + unit) \<times> world" where
  "trackMissedOpportunity e shp term w =
     (case term of
        Some (JStr s) \<Rightarrow> (Inr (), w\<lparr>missed := upsert_missed shp s (now e) (missed w)\<rparr>)
      | _ \<Rightarrow> (Inl (Fault PrismaValidationError), w))"

definition buildSystemPrompt :: "(int \<Rightarrow> string) \<Rightarrow> MerchantContext \<Rightarrow> string" where
  "buildSystemPrompt big c =
     join [CHR 0x0A, CHR 0x0A]
       ([''You are a helpful shopping assistant for '' @ ctx_shop c @ ''.'',
         ''Your tone should be '' @ ctx_brandVoice c @ ''.'']
        @ (case ctx_returnPolicy c of
             None \<Rightarrow> []
           | Some r \<Rightarrow> if r \<noteq> [] then [''Return Policy: '' @ r] else [])
        @ (case ctx_shippingInfo c of
             None \<Rightarrow> []
           | Some s \<Rightarrow> if s \<noteq> [] then [''Shipping Information: '' @ s] else [])
        @ (if ctx_minFreeShipping c > 0
           then [''Free shipping is available on orders over $'' @ number_to_string big (ctx_minFreeShipping c) @ ''.'']
           else [])
        @ [''Always be helpful and guide customers to find what they're looking for.'',
           ''When suggesting products, include prices and availability.'',
           ''If you can't find what the customer wants, suggest alternatives.''])"

definition formatProductsForAI :: "product list \<Rightarrow> string" where
  "formatProductsForAI products =
     (if length products = 0 then ''No products found matching your search.''
      else join [CHR 0x0A, CHR 0x0A]
             (map (\<lambda>(i, p).
                     show_nat (i + 1) @ ''. **'' @ title p @ ''**'' @ [CHR 0x0A]
                     @ ''   - Price: '' @ currencyCode (minVariantPrice p) @ '' ''
                     @ amount (minVariantPrice p) @ [CHR 0x0A]
                     @ ''   - '' @ show_nat (length (filter availableForSale (variants p)))
                     @ '' variant(s) available'' @ [CHR 0x0A]
                     @ ''   - Handle: '' @ handle p @ [CHR 0x0A]
                     @ ''   ''
                     @ (if description p \<noteq> []
                        then ''- Description: '' @ take 150 (description p) @ ''...''
                        else []))
                  (enumerate 0 products)))"


section \<open>The tool-call endpoint\<close>

subsection \<open>Tool Registry\<close>

definition TOOLS :: "json list" where
  "TOOLS =
     [JObj [(''name'', JStr ''search_products''),
            (''description'', JStr ''Search for products in the store catalog. Use this to find products matching a query.''),
            (''inputSchema'',
             JObj [(''type'', JStr ''object''),
                   (''properties'',
                    JObj [(''query'',
                           JObj [(''type'', JStr ''string''),
                                 (''description'', JStr ''Search query (e.g., 'red dress', 'gifts under $50')'')]),
                          (''limit'',
                           JObj [(''type'', JStr ''integer''),
                                 (''description'', JStr ''Maximum number of results to return''),
                                 (''default'', JNum 10)])]),
                   (''required'', JArr [JStr ''query''])])],
      JObj [(''name'', JStr ''get_product''),
            (''description'', JStr ''Get detailed information about a specific product by its handle/slug.''),
            (''inputSchema'',
             JObj [(''type'', JStr ''object''),
                   (''properties'',
                    JObj [(''handle'',
                           JObj [(''type'', JStr ''string''),
                                 (''description'', JStr ''The product handle (URL slug)'')])]),
                   (''required'', JArr [JStr ''handle''])])],
      JObj [(''name'', JStr ''create_checkout''),
            (''description'', JStr ''Create an instant checkout link for one or more products. Returns a URL the customer can use to purchase.''),
            (''inputSchema'',
             JObj [(''type'', JStr ''object''),
                   (''properties'',
                    JObj [(''variant_ids'',
                           JObj [(''type'', JStr ''array''),
                                 (''items'', JObj [(''type'', JStr ''string'')]),
                                 (''description'', JStr ''Array of Shopify variant GIDs (e.g., 'gid://shopify/ProductVariant/12345')'')]),
                          (''quantities'',
                           JObj [(''type'', JStr ''array''),
                                 (''items'', JObj [(''type'', JStr ''integer'')]),
                                 (''description'', JStr ''Array of quantities for each variant (defaults to 1 for each)'')])]),
                   (''required'', JArr [JStr ''variant_ids''])])],
      JObj [(''name'', JStr ''get_store_info''),
            (''description'', JStr ''Get information about the store's policies and details.''),
            (''inputSchema'',
             JObj [(''type'', JStr ''object''),
                   (''properties'',
                    JObj [(''topic'',
                           JObj [(''type'', JStr ''string''),
                                 (''enum'', JArr [JStr ''shipping'', JStr ''returns'', JStr ''brand'', JStr ''all'']),
                                 (''description'', JStr ''The topic to get information about'')])])])]]"

subsection \<open>Authentication\<close>

text \<open>
  \<open>prisma.session.findFirst({where: {shop: shopId}, include: {profile: true}})\<close>: the first
  session of the shop, with the profile of the same shop domain if there is one.
\<close>

definition findSession :: "world \<Rightarrow> string \<Rightarrow> (session \<times> profile option) option" where
  "findSession w shopId =
     (case find (\<lambda>s. shop s = shopId) (sessions w) of
        None \<Rightarrow> None
      | Some s \<Rightarrow> Some (s, find (\<lambda>p. profile_shop p = shop s) (profiles w)))"

definition getMerchantSession :: "world \<Rightarrow> string \<Rightarrow> thrown + (session \<times> profile option)" where
  "getMerchantSession w shopId =
     (case findSession w shopId of
        None \<Rightarrow> Inl (Error ''Shop not found'')
      | Some (s, None) \<Rightarrow> Inl (Error ''AI Agent is disabled for this store'')
      | Some (s, Some p) \<Rightarrow>
          if \<not> isEnabled p then Inl (Error ''AI Agent is disabled for this store'')
          else Inr (s, Some p))"

subsection \<open>Tool handlers\<close>

definition money_json :: "money \<Rightarrow> json" where
  "money_json m = JObj [(''amount'', JStr (amount m)), (''currencyCode'', JStr (currencyCode m))]"

definition opt_str_json :: "string option \<Rightarrow> json" where
  "opt_str_json v = (case v of None \<Rightarrow> JNull | Some s \<Rightarrow> JStr s)"

definition variant_json :: "variant \<Rightarrow> json" where
  "variant_json v =
     JObj [(''id'', JStr (variant_id v)), (''title'', JStr (variant_title v)),
           (''price'', JStr (price v)), (''availableForSale'', JBool (availableForSale v)),
           (''sku'', opt_str_json (sku v))]"

definition product_json :: "product \<Rightarrow> json" where
  "product_json p =
     JObj [(''id'', JStr (product_id p)), (''title'', JStr (title p)),
           (''description'', JStr (description p)), (''handle'', JStr (handle p)),
           (''featuredImage'',
            (case featuredImage p of
               None \<Rightarrow> JNull
             | Some i \<Rightarrow> JObj [(''url'', JStr (url i)), (''altText'', opt_str_json (altText i))])),
           (''priceRange'',
            JObj [(''minVariantPrice'', money_json (minVariantPrice p)),
                  (''maxVariantPrice'', money_json (maxVariantPrice p))]),
           (''variants'', JArr (map variant_json (variants p)))]"

text \<open>The content block \<open>{type: "text", text, data}\<close> a handler returns.\<close>

definition content_block :: "string \<Rightarrow> json option \<Rightarrow> json" where
  "content_block txt d = JObj (obj [(''type'', Some (JStr ''text'')), (''text'', Some (JStr txt)), (''data'', d)])"

definition case_search_products ::
  "env \<Rightarrow> json \<Rightarrow> session \<Rightarrow> profile option \<Rightarrow> world \<Rightarrow> (thrown + json) \<times> world" where
  "case_search_products e args sess merchantProfile w =
     (if args = JNull then (Inl (Fault TypeError), w)
      else
        let query = get args ''query'';
            limit = js_or (get args ''limit'') (JNum 10)
        in case searchProducts e (shop sess) (accessToken sess) query (Some limit) w of
             (Inl t, w1) \<Rightarrow> (Inl t, w1)
           | (Inr products, w1) \<Rightarrow>
               (case (if length products = 0
                      then trackMissedOpportunity e (shop sess) query w1
                      else (Inr (), w1)) of
                  (Inl t, w2) \<Rightarrow> (Inl t, w2)
                | (Inr u, w2) \<Rightarrow>
                    (case merchantProfile of
                       None \<Rightarrow> (Inl (Fault TypeError), w2)
                     | Some p \<Rightarrow>
                         (case logInteraction e (profile_id p) ''search_products'' query
                                 None None None None w2 of
                            (Inl t, w3) \<Rightarrow> (Inl t, w3)
                          | (Inr i, w3) \<Rightarrow>
                              if length products > 0
                              then (Inr (content_block (formatProductsForAI products)
                                           (Some (JArr (map product_json products)))), w3)
                              else (case template (number_text e) query of
                                      None \<Rightarrow> (Inl (Fault TypeError), w3)
                                    | Some q \<Rightarrow>
                                        (Inr (content_block
                                                (''No products found for '' @ [CHR 0x22] @ q @ [CHR 0x22]
                                                 @ ''. Try a different search term.'')
                                                (Some (JArr (map product_json products)))), w3))))))"

definition product_text :: "product \<Rightarrow> string" where
  "product_text p =
     ''**'' @ title p @ ''**'' @ [CHR 0x0A]
     @ ''        '' @ [CHR 0x0A]
     @ (if description p \<noteq> [] then description p else ''No description available.'') @ [CHR 0x0A]
     @ [CHR 0x0A]
     @ ''Price: '' @ currencyCode (minVariantPrice p) @ '' '' @ amount (minVariantPrice p) @ [CHR 0x0A]
     @ show_nat (length (filter availableForSale (variants p))) @ '' variant(s) in stock'' @ [CHR 0x0A]
     @ [CHR 0x0A]
     @ ''Variants:'' @ [CHR 0x0A]
     @ join [CHR 0x0A]
         (map (\<lambda>v. ''- '' @ variant_title v @ '': '' @ price v @ '' (ID: '' @ variant_id v @ '')'')
              (filter availableForSale (variants p)))"

definition case_get_product ::
  "env \<Rightarrow> json \<Rightarrow> session \<Rightarrow> profile option \<Rightarrow> world \<Rightarrow> (thrown + json) \<times> world" where
  "case_get_product e args sess merchantProfile w =
     (if args = JNull then (Inl (Fault TypeError), w)
      else
        let hdl = get args ''handle''
        in case getProductByHandle e (shop sess) (accessToken sess) hdl w of
             (Inl t, w1) \<Rightarrow> (Inl t, w1)
           | (Inr found, w1) \<Rightarrow>
               (case merchantProfile of
                  None \<Rightarrow> (Inl (Fault TypeError), w1)
                | Some p \<Rightarrow>
                    (case logInteraction e (profile_id p) ''get_product'' hdl None None None None w1 of
                       (Inl t, w2) \<Rightarrow> (Inl t, w2)
                     | (Inr i, w2) \<Rightarrow>
                         (case found of
                            None \<Rightarrow>
                              (case template (number_text e) hdl of
                                 None \<Rightarrow> (Inl (Fault TypeError), w2)
                               | Some h \<Rightarrow>
                                   (Inr (content_block
                                           (''Product with handle '' @ [CHR 0x22] @ h @ [CHR 0x22]
                                            @ '' not found.'') None), w2))
                          | Some pr \<Rightarrow>
                              (Inr (content_block (product_text pr) (Some (product_json pr))), w2)))))"

text \<open>\<open>prisma.agentInteraction.update({where: {id}, data})\<close>; the id is the primary key.\<close>

definition update_interaction ::
  "string \<Rightarrow> (interaction \<Rightarrow> interaction) \<Rightarrow> world \<Rightarrow> (thrown + unit) \<times> world" where
  "update_interaction iid f w =
     (if \<exists>r \<in> set (interactions w). interaction_id r = iid
      then (Inr (), w\<lparr>interactions :=
                        map (\<lambda>r. if interaction_id r = iid then f r else r) (interactions w)\<rparr>)
      else (Inl (Fault PrismaRecordNotFound), w))"

definition checkout_text :: "CheckoutResult \<Rightarrow> string" where
  "checkout_text c =
     [CHR 0xE2, CHR 0x9C, CHR 0x85] @ '' Checkout created!'' @ [CHR 0x0A]
     @ [CHR 0x0A]
     @ ''**Total:** '' @ res_currencyCode c @ '' '' @ res_totalPrice c @ [CHR 0x0A]
     @ ''**Checkout URL:** '' @ res_checkoutUrl c @ [CHR 0x0A]
     @ [CHR 0x0A]
     @ ''Share this link with the customer to complete their purchase.''"

text \<open>
  \<open>(args.quantities as number[]) || variantIds.map(() => 1)\<close>; \<open>None\<close> when \<open>variantIds\<close> has
  no \<open>map\<close> method and the call raises a TypeError.
\<close>

definition checkout_quantities :: "json \<Rightarrow> json option" where
  "checkout_quantities args =
     (if truthy_opt (get args ''quantities'') then get args ''quantities''
      else (case get args ''variant_ids'' of
              Some (JArr vs) \<Rightarrow> Some (JArr (map (\<lambda>v. JNum 1) vs))
            | _ \<Rightarrow> None))"

definition case_create_checkout ::
  "env \<Rightarrow> json \<Rightarrow> session \<Rightarrow> profile option \<Rightarrow> world \<Rightarrow> (thrown + json) \<times> world" where
  "case_create_checkout e args sess merchantProfile w =
     (if args = JNull then (Inl (Fault TypeError), w)
      else
        let variantIds = get args ''variant_ids''
        in case checkout_quantities args of
             None \<Rightarrow> (Inl (Fault TypeError), w)
           | Some quantities \<Rightarrow>
               (case merchantProfile of
                  None \<Rightarrow> (Inl (Fault TypeError), w)
                | Some p \<Rightarrow>
                    (case logInteraction e (profile_id p) ''create_checkout''
                            (Some (JStr (stringify (number_text e)
                               (JObj (obj [(''variantIds'', variantIds),
                                           (''quantities'', Some quantities)])))))
                            None None None None w of
                       (Inl t, w1) \<Rightarrow> (Inl t, w1)
                     | (Inr interactionId, w1) \<Rightarrow>
                         (case createCheckoutLink e (shop sess) (accessToken sess)
                                  variantIds quantities interactionId w1 of
                            (Inl t, w2) \<Rightarrow> (Inl t, w2)
                          | (Inr checkout, w2) \<Rightarrow>
                              (case update_interaction interactionId
                                      (\<lambda>r. r\<lparr>checkoutId := Some (res_checkoutId checkout),
                                             checkoutUrl := Some (res_checkoutUrl checkout),
                                             potentialValue := Some (res_totalPrice checkout)\<rparr>) w2 of
                                 (Inl t, w3) \<Rightarrow> (Inl t, w3)
                               | (Inr u, w3) \<Rightarrow>
                                   (Inr (content_block (checkout_text checkout)
                                           (Some (JObj [(''checkoutUrl'', JStr (res_checkoutUrl checkout)),
                                                        (''checkoutId'', JStr (res_checkoutId checkout)),
                                                        (''totalPrice'', JStr (res_totalPrice checkout)),
                                                        (''currencyCode'', JStr (res_currencyCode checkout))]))),
                                    w3))))))"

definition store_info :: "(int \<Rightarrow> string) \<Rightarrow> json \<Rightarrow> MerchantContext \<Rightarrow> string" where
  "store_info big topic c =
     (if topic = JStr ''all'' \<or> topic = JStr ''brand''
      then ''**Brand Voice:** '' @ ctx_brandVoice c @ [CHR 0x0A, CHR 0x0A] else [])
     @ (if topic = JStr ''all'' \<or> topic = JStr ''shipping''
        then (case ctx_shippingInfo c of
                None \<Rightarrow> ''**Shipping:** Contact the store for shipping information.'' @ [CHR 0x0A]
              | Some s \<Rightarrow>
                  if s \<noteq> [] then ''**Shipping:** '' @ s @ [CHR 0x0A]
                  else ''**Shipping:** Contact the store for shipping information.'' @ [CHR 0x0A])
             @ (if ctx_minFreeShipping c > 0
                then ''Free shipping on orders over $'' @ number_to_string big (ctx_minFreeShipping c) @ ''.'' @ [CHR 0x0A]
                else [])
             @ [CHR 0x0A]
        else [])
     @ (if topic = JStr ''all'' \<or> topic = JStr ''returns''
        then (case ctx_returnPolicy c of
                None \<Rightarrow> ''**Returns:** Contact the store for return policy information.'' @ [CHR 0x0A]
              | Some r \<Rightarrow>
                  if r \<noteq> [] then ''**Returns:** '' @ r @ [CHR 0x0A]
                  else ''**Returns:** Contact the store for return policy information.'' @ [CHR 0x0A])
        else [])"

definition case_get_store_info ::
  "env \<Rightarrow> json \<Rightarrow> session \<Rightarrow> profile option \<Rightarrow> world \<Rightarrow> (thrown + json) \<times> world" where
  "case_get_store_info e args sess merchantProfile w =
     (if args = JNull then (Inl (Fault TypeError), w)
      else
        let topic = js_or (get args ''topic'') (JStr ''all'')
        in case merchantProfile of
             None \<Rightarrow> (Inl (Fault TypeError), w)
           | Some p \<Rightarrow>
               let info = store_info (number_text e) topic
                            \<lparr>ctx_shop = shop sess, ctx_accessToken = accessToken sess,
                             ctx_brandVoice = brandVoice p, ctx_returnPolicy = returnPolicy p,
                             ctx_shippingInfo = shippingInfo p,
                             ctx_minFreeShipping = minFreeShipping p\<rparr>
               in (case logInteraction e (profile_id p) ''get_store_info'' (Some topic)
                          None None None None w of
                     (Inl t, w1) \<Rightarrow> (Inl t, w1)
                   | (Inr i, w1) \<Rightarrow>
                       (Inr (content_block
                               (if info \<noteq> [] then info else ''No store information available.'')
                               None), w1)))"

definition handleToolCall ::
  "env \<Rightarrow> json option \<Rightarrow> json \<Rightarrow> session \<Rightarrow> profile option \<Rightarrow> world \<Rightarrow> (thrown + json) \<times> world" where
  "handleToolCall e toolName args sess merchantProfile w =
     (if toolName = Some (JStr ''search_products'')
        then case_search_products e args sess merchantProfile w
      else if toolName = Some (JStr ''get_product'')
        then case_get_product e args sess merchantProfile w
      else if toolName = Some (JStr ''create_checkout'')
        then case_create_checkout e args sess merchantProfile w
      else if toolName = Some (JStr ''get_store_info'')
        then case_get_store_info e args sess merchantProfile w
      else (case template (number_text e) toolName of
              None \<Rightarrow> (Inl (Fault TypeError), w)
            | Some n \<Rightarrow> (Inl (Error (''Unknown tool: '' @ n)), w)))"

subsection \<open>RPC Dispatcher\<close>

text \<open>\<open>json(data, init)\<close>: the status, the headers the route sets, and the document.\<close>

definition rpc_result :: "json option \<Rightarrow> json \<Rightarrow> response" where
  "rpc_result rid r =
     \<lparr>status = 200, headers = [],
      body = JObj (obj [(''jsonrpc'', Some (JStr ''2.0'')), (''id'', rid), (''result'', Some r)])\<rparr>"

definition rpc_error :: "json option \<Rightarrow> int \<Rightarrow> string \<Rightarrow> response" where
  "rpc_error rid code msg =
     \<lparr>status = 200, headers = [],
      body = JObj (obj [(''jsonrpc'', Some (JStr ''2.0'')), (''id'', rid),
                        (''error'', Some (JObj [(''code'', JNum code), (''message'', JStr msg)]))])\<rparr>"

text \<open>\<open>error instanceof Error ? error.message : "Internal error"\<close>.\<close>

definition message :: "env \<Rightarrow> thrown \<Rightarrow> string" where
  "message e t =
     (case t of Error m \<Rightarrow> m | Fault f \<Rightarrow> fault_message e f | NonError \<Rightarrow> ''Internal error'')"

definition context_uri :: "string \<Rightarrow> string" where
  "context_uri shopId = ''shop://'' @ shopId @ ''/context''"

text \<open>
  The body of the \<open>try\<close> block of \<open>action\<close>. The request body is \<open>None\<close> when
  \<open>request.json()\<close> rejects.
\<close>

definition action_try ::
  "env \<Rightarrow> string \<Rightarrow> json option \<Rightarrow> world \<Rightarrow> (thrown + response) \<times> world" where
  "action_try e shopId rb w =
     (case rb of
        None \<Rightarrow> (Inl (Fault SyntaxError), w)
      | Some b \<Rightarrow>
          (case getMerchantSession w shopId of
             Inl t \<Rightarrow> (Inl t, w)
           | Inr (sess, prof) \<Rightarrow>
               if b = JNull then (Inl (Fault TypeError), w)
               else
                 let method = get b ''method''; rpcParams = get b ''params''; rid = get b ''id''
                 in if method = Some (JStr ''initialize'') then
                      (Inr (rpc_result rid
                              (JObj [(''protocolVersion'', JStr ''2024-11-05''),
                                     (''capabilities'', JObj [(''tools'', JObj [])]),
                                     (''serverInfo'',
                                      JObj [(''name'', JStr ''Universal Agent Gateway''),
                                            (''version'', JStr ''1.0.0'')])])), w)
                    else if method = Some (JStr ''tools/list'') then
                      (Inr (rpc_result rid (JObj [(''tools'', JArr TOOLS)])), w)
                    else if method = Some (JStr ''tools/call'') then
                      (case rpcParams of
                         None \<Rightarrow> (Inl (Fault TypeError), w)
                       | Some JNull \<Rightarrow> (Inl (Fault TypeError), w)
                       | Some ps \<Rightarrow>
                           (case handleToolCall e (get ps ''name'')
                                   (js_or (get ps ''arguments'') (JObj [])) sess prof w of
                              (Inl t, w') \<Rightarrow> (Inl t, w')
                            | (Inr r, w') \<Rightarrow>
                                (Inr (rpc_result rid (JObj [(''content'', JArr [r])])), w')))
                    else if method = Some (JStr ''resources/list'') then
                      (Inr (rpc_result rid
                              (JObj [(''resources'',
                                      JArr [JObj [(''uri'', JStr (context_uri shopId)),
                                                  (''name'', JStr ''Store Context''),
                                                  (''description'', JStr ''Brand voice and policy information for this store''),
                                                  (''mimeType'', JStr ''text/plain'')]])])), w)
                    else if method = Some (JStr ''resources/read'') then
                      (case rpcParams of
                         None \<Rightarrow> (Inl (Fault TypeError), w)
                       | Some JNull \<Rightarrow> (Inl (Fault TypeError), w)
                       | Some ps \<Rightarrow>
                           if get ps ''uri'' = Some (JStr (context_uri shopId))
                           then
                             let context =
                                   \<lparr>ctx_shop = shop sess, ctx_accessToken = accessToken sess,
                                    ctx_brandVoice =
                                      (case prof of
                                         None \<Rightarrow> ''friendly''
                                       | Some p \<Rightarrow> if brandVoice p \<noteq> [] then brandVoice p else ''friendly''),
                                    ctx_returnPolicy = (case prof of None \<Rightarrow> None | Some p \<Rightarrow> returnPolicy p),
                                    ctx_shippingInfo = (case prof of None \<Rightarrow> None | Some p \<Rightarrow> shippingInfo p),
                                    ctx_minFreeShipping = (case prof of None \<Rightarrow> 0 | Some p \<Rightarrow> minFreeShipping p)\<rparr>
                             in (Inr (rpc_result rid
                                        (JObj [(''contents'',
                                                JArr [JObj [(''uri'', JStr (context_uri shopId)),
                                                            (''mimeType'', JStr ''text/plain''),
                                                            (''text'', JStr (buildSystemPrompt (number_text e) context))]])])), w)
                           else (Inr (rpc_error rid (- 32602) ''Resource not found''), w))
                    else
                      (case template (number_text e) method of
                         None \<Rightarrow> (Inl (Fault TypeError), w)
                       | Some m \<Rightarrow> (Inr (rpc_error rid (- 32601) (''Method not found: '' @ m)), w))))"

text \<open>
  \<open>action\<close>: the route parameter is \<open>None\<close> when absent. Whatever the \<open>try\<close> block throws
  is turned by the \<open>catch\<close> block into an error envelope.
\<close>

definition action ::
  "env \<Rightarrow> string option \<Rightarrow> json option \<Rightarrow> world \<Rightarrow> (thrown + response) \<times> world" where
  "action e shopId rb w =
     (case shopId of
        None \<Rightarrow>
          (Inr \<lparr>status = 400, headers = [], body = JObj [(''error'', JStr ''Shop ID is required'')]\<rparr>, w)
      | Some sid \<Rightarrow>
          if sid = []
          then (Inr \<lparr>status = 400, headers = [],
                     body = JObj [(''error'', JStr ''Shop ID is required'')]\<rparr>, w)
          else (case action_try e sid rb w of
                  (Inl t, w') \<Rightarrow> (Inr (rpc_error (Some JNull) (- 32603) (message e t)), w')
                | (Inr r, w') \<Rightarrow> (Inr r, w')))"


section \<open>The discovery endpoint\<close>

text \<open>
  What \<open>authenticate.public.appProxy(request)\<close> does: it throws, or it returns the
  session of the shop, which may be missing.
\<close>

datatype proxy_auth =
    AuthThrows
  | AuthSession "session option"

definition mcp_endpoint :: "env \<Rightarrow> string \<Rightarrow> string" where
  "mcp_endpoint e shp =
     (case SHOPIFY_APP_URL e of None \<Rightarrow> ''undefined'' | Some u \<Rightarrow> u)
     @ ''/api/mcp/'' @ encodeURIComponent shp"

definition ucp_tools :: "json list" where
  "ucp_tools =
     [JObj [(''name'', JStr ''search_products''),
            (''description'', JStr ''Search for products in the store catalog''),
            (''parameters'',
             JObj [(''type'', JStr ''object''),
                   (''properties'',
                    JObj [(''query'',
                           JObj [(''type'', JStr ''string''),
                                 (''description'', JStr ''Search query (e.g., 'red dress under $50')'')]),
                          (''limit'',
                           JObj [(''type'', JStr ''integer''),
                                 (''description'', JStr ''Maximum number of results (default: 10)''),
                                 (''default'', JNum 10)])]),
                   (''required'', JArr [JStr ''query''])])],
      JObj [(''name'', JStr ''get_product''),
            (''description'', JStr ''Get detailed information about a specific product''),
            (''parameters'',
             JObj [(''type'', JStr ''object''),
                   (''properties'',
                    JObj [(''handle'',
                           JObj [(''type'', JStr ''string''),
                                 (''description'', JStr ''Product handle/slug'')])]),
                   (''required'', JArr [JStr ''handle''])])],
      JObj [(''name'', JStr ''create_checkout''),
            (''description'', JStr ''Create an instant checkout link for products''),
            (''parameters'',
             JObj [(''type'', JStr ''object''),
                   (''properties'',
                    JObj [(''variant_ids'',
                           JObj [(''type'', JStr ''array''),
                                 (''items'', JObj [(''type'', JStr ''string'')]),
                                 (''description'', JStr ''Array of product variant IDs to add to cart'')]),
                          (''quantities'',
                           JObj [(''type'', JStr ''array''),
                                 (''items'', JObj [(''type'', JStr ''integer'')]),
                                 (''description'', JStr ''Array of quantities for each variant'')])]),
                   (''required'', JArr [JStr ''variant_ids''])])],
      JObj [(''name'', JStr ''get_store_info''),
            (''description'', JStr ''Get information about the store (shipping, returns, etc.)''),
            (''parameters'',
             JObj [(''type'', JStr ''object''),
                   (''properties'',
                    JObj [(''topic'',
                           JObj [(''type'', JStr ''string''),
                                 (''enum'', JArr [JStr ''shipping'', JStr ''returns'', JStr ''contact'', JStr ''about'']),
                                 (''description'', JStr ''Topic to get information about'')])])])]]"

definition ucpProfile :: "env \<Rightarrow> string \<Rightarrow> profile \<Rightarrow> json" where
  "ucpProfile e shp p =
     JObj [(''ucp_version'', JStr ''1.0''),
           (''store'',
            JObj [(''name'', JStr (replace_first ''.myshopify.com'' [] shp)),
                  (''domain'', JStr shp)]),
           (''capabilities'',
            JArr [JObj [(''type'', JStr ''discovery''),
                        (''description'', JStr ''Search and browse products''),
                        (''mcp_endpoint'', JStr (mcp_endpoint e shp))],
                  JObj [(''type'', JStr ''checkout''),
                        (''description'', JStr ''Create instant checkout links''),
                        (''mcp_endpoint'', JStr (mcp_endpoint e shp))],
                  JObj [(''type'', JStr ''inquiry''),
                        (''description'', JStr ''Answer questions about products, shipping, and returns''),
                        (''mcp_endpoint'', JStr (mcp_endpoint e shp))]]),
           (''tools'', JArr ucp_tools),
           (''metadata'',
            JObj (obj [(''brand_voice'', Some (JStr (brandVoice p))),
                       (''free_shipping_threshold'', Some (JNum (minFreeShipping p))),
                       (''last_updated'', map_option JStr (updatedAt p))]))]"

text \<open>The \<open>loader\<close> of the discovery route (\<open>/api/proxy/ucp\<close>).\<close>

definition loader_ucp :: "env \<Rightarrow> proxy_auth \<Rightarrow> world \<Rightarrow> response" where
  "loader_ucp e auth w =
     (case auth of
        AuthThrows \<Rightarrow>
          \<lparr>status = 500, headers = [(''Content-Type'', ''application/json'')],
           body = JObj [(''error'', JStr ''Internal server error'')]\<rparr>
      | AuthSession None \<Rightarrow>
          \<lparr>status = 401, headers = [(''Content-Type'', ''application/json'')],
           body = JObj [(''error'', JStr ''Unauthorized'')]\<rparr>
      | AuthSession (Some sess) \<Rightarrow>
          (case find (\<lambda>p. profile_shop p = shop sess) (profiles w) of
             None \<Rightarrow>
               \<lparr>status = 200,
                headers = [(''Content-Type'', ''application/json''),
                           (''Cache-Control'', ''public, max-age=300'')],
                body = JObj [(''ucp_version'', JStr ''1.0''), (''status'', JStr ''disabled''),
                             (''message'', JStr ''AI Agent is currently disabled for this store.'')]\<rparr>
           | Some p \<Rightarrow>
               if \<not> isEnabled p
               then \<lparr>status = 200,
                     headers = [(''Content-Type'', ''application/json''),
                                (''Cache-Control'', ''public, max-age=300'')],
                     body = JObj [(''ucp_version'', JStr ''1.0''), (''status'', JStr ''disabled''),
                                  (''message'', JStr ''AI Agent is currently disabled for this store.'')]\<rparr>
               else \<lparr>status = 200,
                     headers = [(''Content-Type'', ''application/json''),
                                (''Cache-Control'', ''public, max-age=300''),
                                (''Access-Control-Allow-Origin'', ''*'')],
                     body = ucpProfile e (shop sess) p\<rparr>))"

section \<open>Vocabulary of the properties\<close>

text \<open>A tenant is enabled when its session exists and its profile has the enabled flag on.\<close>

definition enabled_tenant :: "world \<Rightarrow> string \<Rightarrow> session \<Rightarrow> profile \<Rightarrow> bool" where
  "enabled_tenant w sid s p = (findSession w sid = Some (s, Some p) \<and> isEnabled p \<and> sid \<noteq> [])"

definition disabled_tenant :: "world \<Rightarrow> string \<Rightarrow> session \<Rightarrow> profile \<Rightarrow> bool" where
  "disabled_tenant w sid s p = (findSession w sid = Some (s, Some p) \<and> \<not> isEnabled p \<and> sid \<noteq> [])"

text \<open>The \<open>code\<close> of the \<open>error\<close> member of a response, if it has one.\<close>

definition error_code :: "response \<Rightarrow> json option" where
  "error_code r = (case get (body r) ''error'' of None \<Rightarrow> None | Some err \<Rightarrow> get err ''code'')"

text \<open>The requests the client builds.\<close>

definition graphql_url :: "string \<Rightarrow> string" where
  "graphql_url shp = ''https://'' @ shp @ ''/admin/api/2025-01/graphql.json''"

definition search_request :: "session \<Rightarrow> json option \<Rightarrow> json \<Rightarrow> gql_request" where
  "search_request s query limit =
     \<lparr>req_url = graphql_url (shop s), req_token = accessToken s,
      req_query = SEARCH_PRODUCTS_QUERY,
      req_variables = JObj (obj [(''query'', query), (''first'', Some limit)])\<rparr>"

definition handle_request :: "session \<Rightarrow> json option \<Rightarrow> gql_request" where
  "handle_request s hdl =
     \<lparr>req_url = graphql_url (shop s), req_token = accessToken s,
      req_query = GET_PRODUCT_BY_HANDLE_QUERY,
      req_variables = JObj (obj [(''handle'', hdl)])\<rparr>"

definition cart_request :: "session \<Rightarrow> json list \<Rightarrow> json \<Rightarrow> string \<Rightarrow> gql_request" where
  "cart_request s vs quantities interactionId =
     \<lparr>req_url = graphql_url (shop s), req_token = accessToken s,
      req_query = CREATE_CART_MUTATION,
      req_variables = JObj [(''input'', cart_input vs quantities interactionId)]\<rparr>"

text \<open>The attribute of a given key, and the lines, of the cart a request asks to create.\<close>

definition cart_attribute :: "gql_request \<Rightarrow> string \<Rightarrow> json option" where
  "cart_attribute r k =
     (case get (req_variables r) ''input'' of
        None \<Rightarrow> None
      | Some i \<Rightarrow>
          (case get i ''attributes'' of
             Some (JArr attrs) \<Rightarrow>
               (case find (\<lambda>a. get a ''key'' = Some (JStr k)) attrs of
                  None \<Rightarrow> None
                | Some a \<Rightarrow> get a ''value'')
           | _ \<Rightarrow> None))"

definition cart_lines :: "gql_request \<Rightarrow> json list" where
  "cart_lines r =
     (case get (req_variables r) ''input'' of
        None \<Rightarrow> []
      | Some i \<Rightarrow> (case get i ''lines'' of Some (JArr ls) \<Rightarrow> ls | _ \<Rightarrow> []))"

text \<open>The counter of a (shop, term) pair; 0 when the pair has no row.\<close>

definition missed_count :: "missed_opportunity list \<Rightarrow> string \<Rightarrow> string \<Rightarrow> int" where
  "missed_count ms shp term =
     (case find (\<lambda>m. mo_shop m = shp \<and> searchTerm m = term) ms of
        None \<Rightarrow> 0
      | Some m \<Rightarrow> mo_count m)"

text \<open>The same request handled \<open>n\<close> times in a row; the state after the last one.\<close>

fun repeat_action :: "nat \<Rightarrow> env \<Rightarrow> string option \<Rightarrow> json option \<Rightarrow> world \<Rightarrow> world" where
  "repeat_action 0 e shopId rb w = w"
| "repeat_action (Suc n) e shopId rb w = repeat_action n e shopId rb (snd (action e shopId rb w))"

text \<open>An upstream answer to a search that is a success with no product.\<close>

definition zero_products :: "fetch_result \<Rightarrow> bool" where
  "zero_products fr =
     (case fr of
        Rejected t \<Rightarrow> False
      | Responded r \<Rightarrow>
          ok r \<and> (case http_json r of
                    None \<Rightarrow> False
                  | Some d \<Rightarrow> \<not> truthy_opt (errors d) \<and> data d = ProductsData []))"

text \<open>
  The failure of an upstream answer in the words of the specification: a non-success HTTP
  status, or a populated GraphQL error list; the value is the message of the error.
\<close>

definition upstream_error :: "env \<Rightarrow> fetch_result \<Rightarrow> string option" where
  "upstream_error e fr =
     (case fr of
        Rejected t \<Rightarrow> None
      | Responded r \<Rightarrow>
          if \<not> (200 \<le> http_status r \<and> http_status r \<le> 299)
          then Some (''Shopify API error: '' @ show_nat (http_status r) @ '' '' @ statusText r)
          else (case http_json r of
                  None \<Rightarrow> None
                | Some d \<Rightarrow>
                    (case errors d of
                       Some (JArr (x # xs)) \<Rightarrow> Some (''GraphQL errors: '' @ stringify (number_text e) (JArr (x # xs)))
                     | _ \<Rightarrow> None)))"

text \<open>
  The envelope the specification gives for a search without result: a content block with
  \<open>type\<close> and \<open>text\<close> only.
\<close>

definition spec_no_products_envelope :: "json \<Rightarrow> string \<Rightarrow> json" where
  "spec_no_products_envelope rid q =
     JObj [(''jsonrpc'', JStr ''2.0''), (''id'', rid),
           (''result'',
            JObj [(''content'',
                   JArr [JObj [(''type'', JStr ''text''),
                               (''text'', JStr (''No products found for '' @ [CHR 0x22] @ q @ [CHR 0x22]
                                               @ ''. Try a different search term.''))]])])]"

text \<open>The envelope the code returns there: the content block carries the empty product list.\<close>

definition no_products_envelope :: "json option \<Rightarrow> string \<Rightarrow> json" where
  "no_products_envelope rid q =
     JObj (obj [(''jsonrpc'', Some (JStr ''2.0'')), (''id'', rid),
                (''result'',
                 Some (JObj [(''content'',
                        JArr [JObj [(''type'', JStr ''text''),
                                    (''text'', JStr (''No products found for '' @ [CHR 0x22] @ q @ [CHR 0x22]
                                                    @ ''. Try a different search term.'')),
                                    (''data'', JArr [])]])]))])"

text \<open>
  The quantity of line \<open>i\<close> for a \<open>quantities\<close> argument that is absent (\<open>None\<close>) or an
  array: the entry when there is one and it is truthy, 1 otherwise.
\<close>

definition line_quantity :: "json list option \<Rightarrow> nat \<Rightarrow> json" where
  "line_quantity qs i =
     (case qs of
        None \<Rightarrow> JNum 1
      | Some xs \<Rightarrow> if i < length xs \<and> truthy (xs ! i) then xs ! i else JNum 1)"

section \<open>Concrete scenarios\<close>

definition demo_session :: session where
  "demo_session = \<lparr>shop = ''demo.myshopify.com'', accessToken = ''shpat_demo''\<rparr>"

definition off_session :: session where
  "off_session = \<lparr>shop = ''off.myshopify.com'', accessToken = ''shpat_off''\<rparr>"

definition bare_session :: session where
  "bare_session = \<lparr>shop = ''bare.myshopify.com'', accessToken = ''shpat_bare''\<rparr>"

definition demo_profile :: profile where
  "demo_profile =
     \<lparr>profile_id = ''mp_1'', profile_shop = ''demo.myshopify.com'', isEnabled = True,
      brandVoice = ''friendly and professional'', returnPolicy = Some ''30 days'',
      shippingInfo = None, minFreeShipping = 50, updatedAt = Some ''2025-01-01T00:00:00.000Z''\<rparr>"

definition off_profile :: profile where
  "off_profile =
     \<lparr>profile_id = ''mp_2'', profile_shop = ''off.myshopify.com'', isEnabled = False,
      brandVoice = ''friendly and professional'', returnPolicy = None,
      shippingInfo = None, minFreeShipping = 0, updatedAt = None\<rparr>"

definition demo_world :: world where
  "demo_world =
     \<lparr>sessions = [demo_session, off_session, bare_session],
      profiles = [demo_profile, off_profile],
      interactions = [], next_id = 0, missed = [], outbox = []\<rparr>"

definition demo_cart :: cart where
  "demo_cart =
     \<lparr>cart_id = ''gid://shopify/Cart/c1'', cart_checkoutUrl = ''https://demo.myshopify.com/cart/c/c1'',
      totalAmount = \<lparr>amount = ''29.99'', currencyCode = ''USD''\<rparr>\<rparr>"

text \<open>An upstream with an empty catalog that creates every cart it is asked for.\<close>

definition demo_fetch :: "gql_request list \<Rightarrow> gql_request \<Rightarrow> fetch_result" where
  "demo_fetch sent req =
     Responded \<lparr>http_status = 200, statusText = ''OK'',
                http_json = Some \<lparr>errors = None,
                                  data = (case req_query req of
                                            SEARCH_PRODUCTS_QUERY \<Rightarrow> ProductsData []
                                          | GET_PRODUCT_BY_HANDLE_QUERY \<Rightarrow> ProductByHandleData None
                                          | CREATE_CART_MUTATION \<Rightarrow> CartCreateData (Some demo_cart) (Some []))\<rparr>\<rparr>"

text \<open>An upstream that is down, one that reports GraphQL errors, one that rejects the variant.\<close>

definition down_fetch :: "gql_request list \<Rightarrow> gql_request \<Rightarrow> fetch_result" where
  "down_fetch sent req =
     Responded \<lparr>http_status = 503, statusText = ''Service Unavailable'', http_json = None\<rparr>"

definition demo_user_error :: json where
  "demo_user_error =
     JObj [(''code'', JStr ''INVALID''), (''field'', JArr [JStr ''input'', JStr ''lines'']),
           (''message'', JStr ''The merchandise does not exist'')]"

definition invalid_fetch :: "gql_request list \<Rightarrow> gql_request \<Rightarrow> fetch_result" where
  "invalid_fetch sent req =
     Responded \<lparr>http_status = 200, statusText = ''OK'',
                http_json = Some \<lparr>errors = None,
                                  data = CartCreateData None (Some [demo_user_error])\<rparr>\<rparr>"

definition throttled_fetch :: "gql_request list \<Rightarrow> gql_request \<Rightarrow> fetch_result" where
  "throttled_fetch sent req =
     Responded \<lparr>http_status = 200, statusText = ''OK'',
                http_json = Some \<lparr>errors = Some (JArr [JObj [(''message'', JStr ''Throttled'')]]),
                                  data = NoData\<rparr>\<rparr>"

definition demo_fault_message :: "fault \<Rightarrow> string" where
  "demo_fault_message f =
     (case f of
        TypeError \<Rightarrow> ''TypeError''
      | SyntaxError \<Rightarrow> ''Unexpected token''
      | PrismaValidationError \<Rightarrow> ''Invalid invocation''
      | PrismaRecordNotFound \<Rightarrow> ''Record to update not found.'')"

text \<open>A runtime that is asked for the text of one number beyond the safe integers, \<open>1e21\<close>.\<close>

definition demo_number_text :: "int \<Rightarrow> string" where
  "demo_number_text n = ''1e+21''"

definition demo_new_id :: "nat \<Rightarrow> string" where
  "demo_new_id n = ''int_'' @ show_nat n"

definition demo_env :: env where
  "demo_env =
     \<lparr>fetch = demo_fetch, fault_message = demo_fault_message,
      number_text = demo_number_text, new_id = demo_new_id,
      now = 1700000000, SHOPIFY_APP_URL = Some ''https://gateway.example''\<rparr>"

definition down_env :: env where
  "down_env = demo_env\<lparr>fetch := down_fetch\<rparr>"

definition throttled_env :: env where
  "throttled_env = demo_env\<lparr>fetch := throttled_fetch\<rparr>"

definition invalid_env :: env where
  "invalid_env = demo_env\<lparr>fetch := invalid_fetch\<rparr>"

text \<open>The request of the search scenario, and requests used below.\<close>

definition red_dress_request :: json where
  "red_dress_request =
     JObj [(''jsonrpc'', JStr ''2.0''), (''method'', JStr ''tools/call''), (''id'', JNum 1),
           (''params'',
            JObj [(''name'', JStr ''search_products''),
                  (''arguments'', JObj [(''query'', JStr ''red dress''), (''limit'', JNum 5)])])]"

definition unknown_method_request :: json where
  "unknown_method_request =
     JObj [(''jsonrpc'', JStr ''2.0''), (''method'', JStr ''ping''), (''id'', JNum 1)]"

definition unknown_tool_request :: json where
  "unknown_tool_request =
     JObj [(''jsonrpc'', JStr ''2.0''), (''method'', JStr ''tools/call''), (''id'', JNum 7),
           (''params'', JObj [(''name'', JStr ''refund_order'')])]"

definition big_method_request :: json where
  "big_method_request =
     JObj [(''jsonrpc'', JStr ''2.0''), (''method'', JNum 1000000000000000000000), (''id'', JNum 2)]"

definition tools_list_request :: json where
  "tools_list_request =
     JObj [(''jsonrpc'', JStr ''2.0''), (''method'', JStr ''tools/list''), (''id'', JNum 1)]"

definition zero_quantity_args :: json where
  "zero_quantity_args =
     JObj [(''variant_ids'', JArr [JStr ''gid://shopify/ProductVariant/1'']),
           (''quantities'', JArr [JNum 0])]"

definition checkout_args :: json where
  "checkout_args =
     JObj [(''variant_ids'',
            JArr [JStr ''gid://shopify/ProductVariant/1'', JStr ''gid://shopify/ProductVariant/2'']),
           (''quantities'', JArr [JNum 3])]"

definition zero_limit_args :: json where
  "zero_limit_args = JObj [(''query'', JStr ''red dress''), (''limit'', JNum 0)]"

section \<open>Properties\<close>


subsection \<open>Authentication and the dispatch boundary\<close>

lemma getMerchantSession_enabled:
  "enabled_tenant w sid s p \<Longrightarrow> getMerchantSession w sid = Inr (s, Some p)"
  by (simp add: enabled_tenant_def getMerchantSession_def)

lemma getMerchantSession_disabled:
  "disabled_tenant w sid s p \<Longrightarrow>
     getMerchantSession w sid = Inl (Error ''AI Agent is disabled for this store'')"
  by (simp add: disabled_tenant_def getMerchantSession_def)

lemma action_try_disabled:
  "disabled_tenant w sid s p \<Longrightarrow>
     action_try e sid (Some b) w = (Inl (Error ''AI Agent is disabled for this store''), w)"
  by (simp add: action_try_def getMerchantSession_disabled)

lemma action_catch:
  "sid \<noteq> [] \<Longrightarrow> action_try e sid rb w = (Inl t, w') \<Longrightarrow>
     action e (Some sid) rb w = (Inr (rpc_error (Some JNull) (- 32603) (message e t)), w')"
  by (simp add: action_def)

lemma action_pass:
  "sid \<noteq> [] \<Longrightarrow> action_try e sid rb w = (Inr r, w') \<Longrightarrow>
     action e (Some sid) rb w = (Inr r, w')"
  by (simp add: action_def)

lemma disabled_nonempty: "disabled_tenant w sid s p \<Longrightarrow> sid \<noteq> []"
  by (simp add: disabled_tenant_def)

lemma enabled_nonempty: "enabled_tenant w sid s p \<Longrightarrow> sid \<noteq> []"
  by (simp add: enabled_tenant_def)

lemma demo_off_disabled: "disabled_tenant demo_world ''off.myshopify.com'' off_session off_profile"
  by (simp add: disabled_tenant_def findSession_def demo_world_def demo_session_def off_session_def
      bare_session_def demo_profile_def off_profile_def)

lemma demo_enabled: "enabled_tenant demo_world ''demo.myshopify.com'' demo_session demo_profile"
  by (simp add: enabled_tenant_def findSession_def demo_world_def demo_session_def off_session_def
      bare_session_def demo_profile_def off_profile_def)

text \<open>
  C2. For a tenant whose profile has the enabled flag off, a \<open>tools/call\<close> request is answered
  by the JSON-RPC error envelope that carries the message of the disabled agent (code -32603,
  id null); the state is unchanged, and no response to it has a \<open>result\<close> member.
\<close>

theorem C2_disabled_tenant_never_result:
  assumes "disabled_tenant w sid s p"
      and "get b ''method'' = Some (JStr ''tools/call'')"
  shows "action e (Some sid) (Some b) w =
           (Inr \<lparr>status = 200, headers = [],
                 body = JObj [(''jsonrpc'', JStr ''2.0''), (''id'', JNull),
                              (''error'', JObj [(''code'', JNum (- 32603)),
                                                (''message'', JStr ''AI Agent is disabled for this store'')])]\<rparr>, w)
         \<and> (\<forall>r w'. action e (Some sid) (Some b) w = (Inr r, w') \<longrightarrow>
                get (body r) ''result'' = None \<and> error_code r = Some (JNum (- 32603)))"
proof -
  have "action e (Some sid) (Some b) w =
          (Inr (rpc_error (Some JNull) (- 32603) (message e (Error ''AI Agent is disabled for this store''))), w)"
    using assms(1) by (intro action_catch disabled_nonempty action_try_disabled)
  then show ?thesis
    by (simp add: rpc_error_def message_def error_code_def)
qed

theorem C2_witness:
  "disabled_tenant demo_world ''off.myshopify.com'' off_session off_profile
   \<and> get red_dress_request ''method'' = Some (JStr ''tools/call'')
   \<and> action demo_env (Some ''off.myshopify.com'') (Some red_dress_request) demo_world =
           (Inr \<lparr>status = 200, headers = [],
                 body = JObj [(''jsonrpc'', JStr ''2.0''), (''id'', JNull),
                              (''error'', JObj [(''code'', JNum (- 32603)),
                                                (''message'', JStr ''AI Agent is disabled for this store'')])]\<rparr>, demo_world)"
proof -
  have m: "get red_dress_request ''method'' = Some (JStr ''tools/call'')"
    by (simp add: red_dress_request_def)
  show ?thesis
    using C2_disabled_tenant_never_result [OF demo_off_disabled m, of demo_env] demo_off_disabled m
    by simp
qed

lemma get_Some_not_null: "get b k = Some v \<Longrightarrow> b \<noteq> JNull"
  by (cases b) simp_all

lemma action_try_default:
  assumes "enabled_tenant w sid s p" and "b \<noteq> JNull"
      and "get b ''method'' \<noteq> Some (JStr ''initialize'')"
      and "get b ''method'' \<noteq> Some (JStr ''tools/list'')"
      and "get b ''method'' \<noteq> Some (JStr ''tools/call'')"
      and "get b ''method'' \<noteq> Some (JStr ''resources/list'')"
      and "get b ''method'' \<noteq> Some (JStr ''resources/read'')"
  shows "action_try e sid (Some b) w =
           (case template (number_text e) (get b ''method'') of
              None \<Rightarrow> (Inl (Fault TypeError), w)
            | Some m \<Rightarrow> (Inr (rpc_error (get b ''id'') (- 32601) (''Method not found: '' @ m)), w))"
  using assms by (simp add: action_try_def getMerchantSession_enabled)

lemma action_unknown_method:
  assumes "enabled_tenant w sid s p" and "b \<noteq> JNull"
      and "get b ''method'' \<notin> {Some (JStr ''initialize''), Some (JStr ''tools/list''),
             Some (JStr ''tools/call''), Some (JStr ''resources/list''), Some (JStr ''resources/read'')}"
      and "template (number_text e) (get b ''method'') = Some m"
  shows "action e (Some sid) (Some b) w =
           (Inr (rpc_error (get b ''id'') (- 32601) (''Method not found: '' @ m)), w)"
proof -
  have "action_try e sid (Some b) w =
          (Inr (rpc_error (get b ''id'') (- 32601) (''Method not found: '' @ m)), w)"
    using assms by (simp add: action_try_default)
  then show ?thesis
    using assms(1) by (simp add: action_pass enabled_nonempty)
qed

lemma action_unknown_tenant:
  assumes "findSession w sid = None" and "sid \<noteq> []"
  shows "action e (Some sid) (Some b) w =
           (Inr (rpc_error (Some JNull) (- 32603) ''Shop not found''), w)"
proof -
  have "action_try e sid (Some b) w = (Inl (Error ''Shop not found''), w)"
    using assms(1) by (simp add: action_try_def getMerchantSession_def)
  then show ?thesis
    using assms(2) by (simp add: action_catch message_def)
qed

lemma action_no_profile:
  assumes "findSession w sid = Some (s, None)" and "sid \<noteq> []"
  shows "action e (Some sid) (Some b) w =
           (Inr (rpc_error (Some JNull) (- 32603) ''AI Agent is disabled for this store''), w)"
proof -
  have "action_try e sid (Some b) w = (Inl (Error ''AI Agent is disabled for this store''), w)"
    using assms(1) by (simp add: action_try_def getMerchantSession_def)
  then show ?thesis
    using assms(2) by (simp add: action_catch message_def)
qed

lemma action_disabled:
  assumes "disabled_tenant w sid s p"
  shows "action e (Some sid) (Some b) w =
           (Inr (rpc_error (Some JNull) (- 32603) ''AI Agent is disabled for this store''), w)"
proof -
  have "action_try e sid (Some b) w = (Inl (Error ''AI Agent is disabled for this store''), w)"
    using assms by (rule action_try_disabled)
  then show ?thesis
    using assms by (simp add: action_catch disabled_nonempty message_def)
qed

text \<open>
  C5 (as amended). Authentication runs before routing. For an enabled tenant and a request
  body other than \<open>null\<close>, a \<open>method\<close> that is none of \<open>initialize\<close>, \<open>tools/list\<close>,
  \<open>tools/call\<close>, \<open>resources/list\<close>, \<open>resources/read\<close> and that the runtime renders as the
  text \<open>m\<close> is answered by the error envelope with code -32601, the message
  \<open>Method not found: m\<close> and the id of the request, whatever else the payload holds; the
  state is unchanged. For a tenant that is not enabled, every request whose body parses is
  answered by the envelope with code -32603 and id \<open>null\<close> instead, whatever its method is:
  with the message \<open>Shop not found\<close> when the shop has no session, and with the message
  \<open>AI Agent is disabled for this store\<close> when its profile is missing or has the enabled flag
  off.
\<close>

theorem C5_unknown_method_enabled_tenant:
  "(enabled_tenant w sid s p \<longrightarrow> b \<noteq> JNull \<longrightarrow>
      get b ''method'' \<notin> {Some (JStr ''initialize''), Some (JStr ''tools/list''),
        Some (JStr ''tools/call''), Some (JStr ''resources/list''), Some (JStr ''resources/read'')} \<longrightarrow>
      template (number_text e) (get b ''method'') = Some m \<longrightarrow>
      action e (Some sid) (Some b) w =
        (Inr \<lparr>status = 200, headers = [],
              body = JObj (obj [(''jsonrpc'', Some (JStr ''2.0'')), (''id'', get b ''id''),
                                (''error'', Some (JObj [(''code'', JNum (- 32601)),
                                   (''message'', JStr (''Method not found: '' @ m))]))])\<rparr>, w))
   \<and> (sid \<noteq> [] \<longrightarrow> findSession w sid = None \<longrightarrow>
        action e (Some sid) (Some b) w =
          (Inr \<lparr>status = 200, headers = [],
                body = JObj [(''jsonrpc'', JStr ''2.0''), (''id'', JNull),
                             (''error'', JObj [(''code'', JNum (- 32603)),
                                               (''message'', JStr ''Shop not found'')])]\<rparr>, w))
   \<and> (sid \<noteq> [] \<longrightarrow> findSession w sid = Some (s, None) \<longrightarrow>
        action e (Some sid) (Some b) w =
          (Inr \<lparr>status = 200, headers = [],
                body = JObj [(''jsonrpc'', JStr ''2.0''), (''id'', JNull),
                             (''error'', JObj [(''code'', JNum (- 32603)),
                                               (''message'', JStr ''AI Agent is disabled for this store'')])]\<rparr>, w))
   \<and> (disabled_tenant w sid s p \<longrightarrow>
        action e (Some sid) (Some b) w =
          (Inr \<lparr>status = 200, headers = [],
                body = JObj [(''jsonrpc'', JStr ''2.0''), (''id'', JNull),
                             (''error'', JObj [(''code'', JNum (- 32603)),
                                               (''message'', JStr ''AI Agent is disabled for this store'')])]\<rparr>, w))"
proof (intro conjI impI)
  assume "enabled_tenant w sid s p" and "b \<noteq> JNull"
     and "get b ''method'' \<notin> {Some (JStr ''initialize''), Some (JStr ''tools/list''),
        Some (JStr ''tools/call''), Some (JStr ''resources/list''), Some (JStr ''resources/read'')}"
     and "template (number_text e) (get b ''method'') = Some m"
  then show "action e (Some sid) (Some b) w =
        (Inr \<lparr>status = 200, headers = [],
              body = JObj (obj [(''jsonrpc'', Some (JStr ''2.0'')), (''id'', get b ''id''),
                                (''error'', Some (JObj [(''code'', JNum (- 32601)),
                                   (''message'', JStr (''Method not found: '' @ m))]))])\<rparr>, w)"
    by (simp add: action_unknown_method rpc_error_def)
next
  assume "sid \<noteq> []" and "findSession w sid = None"
  then show "action e (Some sid) (Some b) w =
          (Inr \<lparr>status = 200, headers = [],
                body = JObj [(''jsonrpc'', JStr ''2.0''), (''id'', JNull),
                             (''error'', JObj [(''code'', JNum (- 32603)),
                                               (''message'', JStr ''Shop not found'')])]\<rparr>, w)"
    by (simp add: action_unknown_tenant rpc_error_def)
next
  assume "sid \<noteq> []" and "findSession w sid = Some (s, None)"
  then show "action e (Some sid) (Some b) w =
          (Inr \<lparr>status = 200, headers = [],
                body = JObj [(''jsonrpc'', JStr ''2.0''), (''id'', JNull),
                             (''error'', JObj [(''code'', JNum (- 32603)),
                                               (''message'', JStr ''AI Agent is disabled for this store'')])]\<rparr>, w)"
    by (simp add: action_no_profile rpc_error_def)
next
  assume "disabled_tenant w sid s p"
  then show "action e (Some sid) (Some b) w =
          (Inr \<lparr>status = 200, headers = [],
                body = JObj [(''jsonrpc'', JStr ''2.0''), (''id'', JNull),
                             (''error'', JObj [(''code'', JNum (- 32603)),
                                               (''message'', JStr ''AI Agent is disabled for this store'')])]\<rparr>, w)"
    by (simp add: action_disabled rpc_error_def)
qed

lemma demo_unknown_shop: "findSession demo_world ''nosuch.myshopify.com'' = None"
  by (simp add: findSession_def demo_world_def demo_session_def off_session_def bare_session_def)

lemma demo_bare_shop: "findSession demo_world ''bare.myshopify.com'' = Some (bare_session, None)"
  by (simp add: findSession_def demo_world_def demo_session_def off_session_def bare_session_def
      demo_profile_def off_profile_def)

theorem C5_witness:
  "enabled_tenant demo_world ''demo.myshopify.com'' demo_session demo_profile
   \<and> template (number_text demo_env) (get unknown_method_request ''method'') = Some ''ping''
   \<and> action demo_env (Some ''demo.myshopify.com'') (Some unknown_method_request) demo_world =
           (Inr \<lparr>status = 200, headers = [],
                 body = JObj [(''jsonrpc'', JStr ''2.0''), (''id'', JNum 1),
                              (''error'', JObj [(''code'', JNum (- 32601)),
                                                (''message'', JStr ''Method not found: ping'')])]\<rparr>, demo_world)
   \<and> get big_method_request ''method'' = Some (JNum 1000000000000000000000)
   \<and> template (number_text demo_env) (get big_method_request ''method'') = Some ''1e+21''
   \<and> action demo_env (Some ''demo.myshopify.com'') (Some big_method_request) demo_world =
           (Inr \<lparr>status = 200, headers = [],
                 body = JObj [(''jsonrpc'', JStr ''2.0''), (''id'', JNum 2),
                              (''error'', JObj [(''code'', JNum (- 32601)),
                                                (''message'', JStr ''Method not found: 1e+21'')])]\<rparr>, demo_world)
   \<and> findSession demo_world ''nosuch.myshopify.com'' = None
   \<and> action demo_env (Some ''nosuch.myshopify.com'') (Some unknown_method_request) demo_world =
          (Inr \<lparr>status = 200, headers = [],
                body = JObj [(''jsonrpc'', JStr ''2.0''), (''id'', JNull),
                             (''error'', JObj [(''code'', JNum (- 32603)),
                                               (''message'', JStr ''Shop not found'')])]\<rparr>, demo_world)
   \<and> findSession demo_world ''bare.myshopify.com'' = Some (bare_session, None)
   \<and> action demo_env (Some ''bare.myshopify.com'') (Some unknown_method_request) demo_world =
          (Inr \<lparr>status = 200, headers = [],
                body = JObj [(''jsonrpc'', JStr ''2.0''), (''id'', JNull),
                             (''error'', JObj [(''code'', JNum (- 32603)),
                                               (''message'', JStr ''AI Agent is disabled for this store'')])]\<rparr>, demo_world)
   \<and> disabled_tenant demo_world ''off.myshopify.com'' off_session off_profile
   \<and> action demo_env (Some ''off.myshopify.com'') (Some unknown_method_request) demo_world =
          (Inr \<lparr>status = 200, headers = [],
                body = JObj [(''jsonrpc'', JStr ''2.0''), (''id'', JNull),
                             (''error'', JObj [(''code'', JNum (- 32603)),
                                               (''message'', JStr ''AI Agent is disabled for this store'')])]\<rparr>, demo_world)"
proof -
  have n: "unknown_method_request \<noteq> JNull" "big_method_request \<noteq> JNull"
    by (simp_all add: unknown_method_request_def big_method_request_def)
  have m: "get unknown_method_request ''method'' \<notin> {Some (JStr ''initialize''), Some (JStr ''tools/list''),
             Some (JStr ''tools/call''), Some (JStr ''resources/list''), Some (JStr ''resources/read'')}"
    by (simp add: unknown_method_request_def)
  have t: "template (number_text demo_env) (get unknown_method_request ''method'') = Some ''ping''"
    by (simp add: unknown_method_request_def template_def)
  have i: "get unknown_method_request ''id'' = Some (JNum 1)"
    by (simp add: unknown_method_request_def)
  have bm: "get big_method_request ''method'' = Some (JNum 1000000000000000000000)"
    by (simp add: big_method_request_def)
  have bn: "get big_method_request ''method'' \<notin> {Some (JStr ''initialize''), Some (JStr ''tools/list''),
             Some (JStr ''tools/call''), Some (JStr ''resources/list''), Some (JStr ''resources/read'')}"
    by (simp add: big_method_request_def)
  have bt: "template (number_text demo_env) (get big_method_request ''method'') = Some ''1e+21''"
    by (simp add: bm template_def number_to_string_def MAX_SAFE_INTEGER_def demo_env_def
          demo_number_text_def)
  have bi: "get big_method_request ''id'' = Some (JNum 2)"
    by (simp add: big_method_request_def)
  have ne: "''nosuch.myshopify.com'' \<noteq> []" "''bare.myshopify.com'' \<noteq> []"
    by simp_all
  note c1 = C5_unknown_method_enabled_tenant [of demo_world "''demo.myshopify.com''" demo_session
      demo_profile unknown_method_request demo_env "''ping''"]
  note c2 = C5_unknown_method_enabled_tenant [of demo_world "''demo.myshopify.com''" demo_session
      demo_profile big_method_request demo_env "''1e+21''"]
  note c3 = C5_unknown_method_enabled_tenant [of demo_world "''nosuch.myshopify.com''" demo_session
      demo_profile unknown_method_request demo_env "''ping''"]
  note c4 = C5_unknown_method_enabled_tenant [of demo_world "''bare.myshopify.com''" bare_session
      demo_profile unknown_method_request demo_env "''ping''"]
  note c5 = C5_unknown_method_enabled_tenant [of demo_world "''off.myshopify.com''" off_session
      off_profile unknown_method_request demo_env "''ping''"]
  have r1: "action demo_env (Some ''demo.myshopify.com'') (Some unknown_method_request) demo_world =
           (Inr \<lparr>status = 200, headers = [],
                 body = JObj [(''jsonrpc'', JStr ''2.0''), (''id'', JNum 1),
                              (''error'', JObj [(''code'', JNum (- 32601)),
                                                (''message'', JStr ''Method not found: ping'')])]\<rparr>, demo_world)"
    using c1 demo_enabled n(1) m t by (simp add: i)
  have r2: "action demo_env (Some ''demo.myshopify.com'') (Some big_method_request) demo_world =
           (Inr \<lparr>status = 200, headers = [],
                 body = JObj [(''jsonrpc'', JStr ''2.0''), (''id'', JNum 2),
                              (''error'', JObj [(''code'', JNum (- 32601)),
                                                (''message'', JStr ''Method not found: 1e+21'')])]\<rparr>, demo_world)"
    using c2 demo_enabled n(2) bn bt by (simp add: bi)
  have r3: "action demo_env (Some ''nosuch.myshopify.com'') (Some unknown_method_request) demo_world =
          (Inr \<lparr>status = 200, headers = [],
                body = JObj [(''jsonrpc'', JStr ''2.0''), (''id'', JNull),
                             (''error'', JObj [(''code'', JNum (- 32603)),
                                               (''message'', JStr ''Shop not found'')])]\<rparr>, demo_world)"
    using c3 ne(1) demo_unknown_shop by blast
  have r4: "action demo_env (Some ''bare.myshopify.com'') (Some unknown_method_request) demo_world =
          (Inr \<lparr>status = 200, headers = [],
                body = JObj [(''jsonrpc'', JStr ''2.0''), (''id'', JNull),
                             (''error'', JObj [(''code'', JNum (- 32603)),
                                               (''message'', JStr ''AI Agent is disabled for this store'')])]\<rparr>, demo_world)"
    using c4 ne(2) demo_bare_shop by blast
  have r5: "action demo_env (Some ''off.myshopify.com'') (Some unknown_method_request) demo_world =
          (Inr \<lparr>status = 200, headers = [],
                body = JObj [(''jsonrpc'', JStr ''2.0''), (''id'', JNull),
                             (''error'', JObj [(''code'', JNum (- 32603)),
                                               (''message'', JStr ''AI Agent is disabled for this store'')])]\<rparr>, demo_world)"
    using c5 demo_off_disabled by blast
  show ?thesis
    using demo_enabled t bm bt demo_unknown_shop demo_bare_shop demo_off_disabled r1 r2 r3 r4 r5
    by blast
qed

theorem C5_counterexample:
  "get unknown_method_request ''method'' = Some (JStr ''ping'')
   \<and> action demo_env (Some ''off.myshopify.com'') (Some unknown_method_request) demo_world =
       (Inr (rpc_error (Some JNull) (- 32603) ''AI Agent is disabled for this store''), demo_world)
   \<and> error_code (rpc_error (Some JNull) (- 32603) ''AI Agent is disabled for this store'')
       \<noteq> Some (JNum (- 32601))"
proof -
  have "action demo_env (Some ''off.myshopify.com'') (Some unknown_method_request) demo_world =
       (Inr (rpc_error (Some JNull) (- 32603) ''AI Agent is disabled for this store''), demo_world)"
    by (rule action_disabled [OF demo_off_disabled])
  then show ?thesis
    by (simp add: unknown_method_request_def error_code_def rpc_error_def)
qed

lemma action_tools_list:
  assumes "enabled_tenant w sid s p" and "get b ''method'' = Some (JStr ''tools/list'')"
  shows "action e (Some sid) (Some b) w =
           (Inr (rpc_result (get b ''id'') (JObj [(''tools'', JArr TOOLS)])), w)"
proof -
  have "b \<noteq> JNull" using assms(2) by (rule get_Some_not_null)
  then have "action_try e sid (Some b) w =
          (Inr (rpc_result (get b ''id'') (JObj [(''tools'', JArr TOOLS)])), w)"
    using assms by (simp add: action_try_def getMerchantSession_enabled)
  then show ?thesis
    using assms(1) by (simp add: action_pass enabled_nonempty)
qed

text \<open>
  C8. Two \<open>tools/list\<close> requests with the same id, to enabled tenants, get the same response,
  whatever the tenants, the stores, the environments and the rest of the payloads are: the
  result is the fixed list \<open>TOOLS\<close>, whose four descriptors are \<open>search_products\<close>,
  \<open>get_product\<close>, \<open>create_checkout\<close> and \<open>get_store_info\<close> in this order.
\<close>

theorem C8_tools_list_stable:
  assumes "enabled_tenant w1 sid1 s1 p1" and "enabled_tenant w2 sid2 s2 p2"
      and "get b1 ''method'' = Some (JStr ''tools/list'')"
      and "get b2 ''method'' = Some (JStr ''tools/list'')"
      and "get b1 ''id'' = get b2 ''id''"
  shows "fst (action e1 (Some sid1) (Some b1) w1) = fst (action e2 (Some sid2) (Some b2) w2)
         \<and> fst (action e1 (Some sid1) (Some b1) w1) =
             Inr \<lparr>status = 200, headers = [],
                  body = JObj (obj [(''jsonrpc'', Some (JStr ''2.0'')), (''id'', get b1 ''id''),
                                    (''result'', Some (JObj [(''tools'', JArr TOOLS)]))])\<rparr>
         \<and> map (\<lambda>t. get t ''name'') TOOLS =
             [Some (JStr ''search_products''), Some (JStr ''get_product''),
              Some (JStr ''create_checkout''), Some (JStr ''get_store_info'')]"
proof -
  have n: "map (\<lambda>t. get t ''name'') TOOLS =
             [Some (JStr ''search_products''), Some (JStr ''get_product''),
              Some (JStr ''create_checkout''), Some (JStr ''get_store_info'')]"
    by (simp add: TOOLS_def)
  show ?thesis
    using assms n by (simp add: action_tools_list rpc_result_def)
qed

theorem C8_witness:
  "enabled_tenant demo_world ''demo.myshopify.com'' demo_session demo_profile
   \<and> get tools_list_request ''method'' = Some (JStr ''tools/list'')
   \<and> fst (action demo_env (Some ''demo.myshopify.com'') (Some tools_list_request) demo_world) =
       fst (action down_env (Some ''demo.myshopify.com'') (Some tools_list_request) demo_world)
   \<and> fst (action demo_env (Some ''demo.myshopify.com'') (Some tools_list_request) demo_world) =
             Inr \<lparr>status = 200, headers = [],
                  body = JObj [(''jsonrpc'', JStr ''2.0''), (''id'', JNum 1),
                               (''result'', JObj [(''tools'', JArr TOOLS)])]\<rparr>"
proof -
  have m: "get tools_list_request ''method'' = Some (JStr ''tools/list'')"
    by (simp add: tools_list_request_def)
  have i: "get tools_list_request ''id'' = Some (JNum 1)"
    by (simp add: tools_list_request_def)
  show ?thesis
    using C8_tools_list_stable [OF demo_enabled demo_enabled m m refl, of demo_env down_env]
      demo_enabled m i
    by auto
qed

lemma action_returns: "\<exists>r w'. action e shopId rb w = (Inr r, w')"
  by (auto simp: action_def split: option.splits prod.splits sum.splits)

lemma action_try_tools_call:
  assumes "enabled_tenant w sid s p"
      and "get b ''method'' = Some (JStr ''tools/call'')"
      and "get b ''params'' = Some ps" and "ps \<noteq> JNull"
  shows "action_try e sid (Some b) w =
           (case handleToolCall e (get ps ''name'') (js_or (get ps ''arguments'') (JObj [])) s (Some p) w of
              (Inl t, w') \<Rightarrow> (Inl t, w')
            | (Inr r, w') \<Rightarrow> (Inr (rpc_result (get b ''id'') (JObj [(''content'', JArr [r])])), w'))"
proof -
  have "b \<noteq> JNull" using assms(2) by (cases b) simp_all
  then show ?thesis
    using assms by (cases ps) (simp_all add: action_try_def getMerchantSession_enabled)
qed

text \<open>
  C3 (as amended). For a request whose body parses, \<open>action\<close> always returns a response and
  never throws; whatever the \<open>try\<close> block throws, in the routing or in a tool handler, is
  answered by the error envelope with code -32603 and the message of the error, and the id
  of this envelope is \<open>null\<close> in every case: the id of the request is not echoed, also when
  it could be read (see the counterexample).
\<close>

theorem C3_errors_caught_with_null_id:
  "(\<exists>r w'. action e shopId (Some b) w = (Inr r, w'))
   \<and> (sid \<noteq> [] \<longrightarrow> action_try e sid (Some b) w = (Inl t, w') \<longrightarrow>
        action e (Some sid) (Some b) w =
          (Inr \<lparr>status = 200, headers = [],
                body = JObj [(''jsonrpc'', JStr ''2.0''), (''id'', JNull),
                             (''error'', JObj [(''code'', JNum (- 32603)),
                                               (''message'', JStr (message e t))])]\<rparr>, w'))
   \<and> (enabled_tenant w sid s p \<longrightarrow> get b ''method'' = Some (JStr ''tools/call'') \<longrightarrow>
        get b ''params'' = Some ps \<longrightarrow> ps \<noteq> JNull \<longrightarrow>
        handleToolCall e (get ps ''name'') (js_or (get ps ''arguments'') (JObj [])) s (Some p) w = (Inl t, w') \<longrightarrow>
        action e (Some sid) (Some b) w =
          (Inr \<lparr>status = 200, headers = [],
                body = JObj [(''jsonrpc'', JStr ''2.0''), (''id'', JNull),
                             (''error'', JObj [(''code'', JNum (- 32603)),
                                               (''message'', JStr (message e t))])]\<rparr>, w'))"
proof (intro conjI impI)
  show "\<exists>r w'. action e shopId (Some b) w = (Inr r, w')"
    by (rule action_returns)
next
  assume "sid \<noteq> []" and "action_try e sid (Some b) w = (Inl t, w')"
  then show "action e (Some sid) (Some b) w =
          (Inr \<lparr>status = 200, headers = [],
                body = JObj [(''jsonrpc'', JStr ''2.0''), (''id'', JNull),
                             (''error'', JObj [(''code'', JNum (- 32603)),
                                               (''message'', JStr (message e t))])]\<rparr>, w')"
    by (simp add: action_catch rpc_error_def)
next
  assume en: "enabled_tenant w sid s p" and m: "get b ''method'' = Some (JStr ''tools/call'')"
     and ps: "get b ''params'' = Some ps" "ps \<noteq> JNull"
     and h: "handleToolCall e (get ps ''name'') (js_or (get ps ''arguments'') (JObj [])) s (Some p) w = (Inl t, w')"
  have "action_try e sid (Some b) w = (Inl t, w')"
    using h by (simp add: action_try_tools_call [OF en m ps])
  then show "action e (Some sid) (Some b) w =
          (Inr \<lparr>status = 200, headers = [],
                body = JObj [(''jsonrpc'', JStr ''2.0''), (''id'', JNull),
                             (''error'', JObj [(''code'', JNum (- 32603)),
                                               (''message'', JStr (message e t))])]\<rparr>, w')"
    using en by (simp add: action_catch enabled_nonempty rpc_error_def)
qed

lemma demo_unknown_tool:
  "handleToolCall demo_env (Some (JStr ''refund_order'')) (JObj []) demo_session (Some demo_profile) demo_world
     = (Inl (Error ''Unknown tool: refund_order''), demo_world)"
  by (simp add: handleToolCall_def template_def)

theorem C3_witness:
  "enabled_tenant demo_world ''demo.myshopify.com'' demo_session demo_profile
   \<and> get unknown_tool_request ''method'' = Some (JStr ''tools/call'')
   \<and> get unknown_tool_request ''params'' = Some (JObj [(''name'', JStr ''refund_order'')])
   \<and> handleToolCall demo_env (Some (JStr ''refund_order'')) (JObj []) demo_session (Some demo_profile) demo_world
        = (Inl (Error ''Unknown tool: refund_order''), demo_world)
   \<and> action demo_env (Some ''demo.myshopify.com'') (Some unknown_tool_request) demo_world =
          (Inr \<lparr>status = 200, headers = [],
                body = JObj [(''jsonrpc'', JStr ''2.0''), (''id'', JNull),
                             (''error'', JObj [(''code'', JNum (- 32603)),
                                               (''message'', JStr ''Unknown tool: refund_order'')])]\<rparr>, demo_world)"
proof -
  have m: "get unknown_tool_request ''method'' = Some (JStr ''tools/call'')"
    and ps: "get unknown_tool_request ''params'' = Some (JObj [(''name'', JStr ''refund_order'')])"
    by (simp_all add: unknown_tool_request_def)
  have h: "handleToolCall demo_env (get (JObj [(''name'', JStr ''refund_order'')]) ''name'')
             (js_or (get (JObj [(''name'', JStr ''refund_order'')]) ''arguments'') (JObj []))
             demo_session (Some demo_profile) demo_world
           = (Inl (Error ''Unknown tool: refund_order''), demo_world)"
    using demo_unknown_tool by (simp add: js_or_def)
  have "action demo_env (Some ''demo.myshopify.com'') (Some unknown_tool_request) demo_world =
          (Inr \<lparr>status = 200, headers = [],
                body = JObj [(''jsonrpc'', JStr ''2.0''), (''id'', JNull),
                             (''error'', JObj [(''code'', JNum (- 32603)),
                                               (''message'', JStr (message demo_env (Error ''Unknown tool: refund_order'')))])]\<rparr>, demo_world)"
    using C3_errors_caught_with_null_id [of demo_env "Some ''demo.myshopify.com''" unknown_tool_request
        demo_world "''demo.myshopify.com''" "Error ''Unknown tool: refund_order''" demo_world
        demo_session demo_profile "JObj [(''name'', JStr ''refund_order'')]"]
      demo_enabled m ps h
    by blast
  then show ?thesis
    using demo_enabled m ps demo_unknown_tool by (simp add: message_def)
qed

theorem C3_counterexample:
  "get unknown_tool_request ''id'' = Some (JNum 7)
   \<and> action demo_env (Some ''demo.myshopify.com'') (Some unknown_tool_request) demo_world =
       (Inr (rpc_error (Some JNull) (- 32603) ''Unknown tool: refund_order''), demo_world)
   \<and> get (body (rpc_error (Some JNull) (- 32603) ''Unknown tool: refund_order'')) ''id'' = Some JNull"
proof -
  have m: "get unknown_tool_request ''method'' = Some (JStr ''tools/call'')"
    and ps: "get unknown_tool_request ''params'' = Some (JObj [(''name'', JStr ''refund_order'')])"
    by (simp_all add: unknown_tool_request_def)
  have "action_try demo_env ''demo.myshopify.com'' (Some unknown_tool_request) demo_world =
          (Inl (Error ''Unknown tool: refund_order''), demo_world)"
    using demo_unknown_tool
    by (simp add: action_try_tools_call [OF demo_enabled m ps] js_or_def)
  then have "action demo_env (Some ''demo.myshopify.com'') (Some unknown_tool_request) demo_world =
       (Inr (rpc_error (Some JNull) (- 32603) ''Unknown tool: refund_order''), demo_world)"
    by (simp add: action_def message_def)
  then show ?thesis
    by (simp add: unknown_tool_request_def rpc_error_def)
qed

subsection \<open>The Catalog/Checkout client\<close>

lemma executeShopifyGraphQL_state:
  "snd (executeShopifyGraphQL e shp token q vars w) =
     w\<lparr>outbox := outbox w @ [\<lparr>req_url = graphql_url shp, req_token = token,
                                 req_query = q, req_variables = vars\<rparr>]\<rparr>"
  by (simp add: executeShopifyGraphQL_def graphql_url_def Let_def
           split: fetch_result.splits option.splits)

lemma executeShopifyGraphQL_error:
  assumes "upstream_error e (fetch e (outbox w) req) = Some msg"
      and "req = \<lparr>req_url = graphql_url shp, req_token = token, req_query = q, req_variables = vars\<rparr>"
  shows "executeShopifyGraphQL e shp token q vars w =
           (Inl (Error msg), w\<lparr>outbox := outbox w @ [req]\<rparr>)"
  using assms
  by (auto simp: executeShopifyGraphQL_def graphql_url_def Let_def upstream_error_def ok_def
           split: fetch_result.splits option.splits if_splits json.splits list.splits)

lemma executeShopifyGraphQL_ok:
  assumes "fetch e (outbox w) req = Responded r" and "ok r" and "http_json r = Some d"
      and "\<not> truthy_opt (errors d)"
      and "req = \<lparr>req_url = graphql_url shp, req_token = token, req_query = q, req_variables = vars\<rparr>"
  shows "executeShopifyGraphQL e shp token q vars w = (Inr d, w\<lparr>outbox := outbox w @ [req]\<rparr>)"
  using assms
  by (auto simp: executeShopifyGraphQL_def graphql_url_def Let_def truthy_opt_def
           split: option.splits)

lemma searchProducts_state:
  "snd (searchProducts e (shop s) (accessToken s) query (Some limit) w) =
     w\<lparr>outbox := outbox w @ [search_request s query limit]\<rparr>"
proof -
  have "snd (searchProducts e (shop s) (accessToken s) query (Some limit) w) =
        snd (executeShopifyGraphQL e (shop s) (accessToken s) SEARCH_PRODUCTS_QUERY
               (JObj (obj [(''query'', query), (''first'', Some limit)])) w)"
    by (simp add: searchProducts_def split: prod.splits sum.splits gql_data.splits)
  then show ?thesis
    by (simp add: executeShopifyGraphQL_state search_request_def)
qed

lemma getProductByHandle_state:
  "snd (getProductByHandle e (shop s) (accessToken s) hdl w) =
     w\<lparr>outbox := outbox w @ [handle_request s hdl]\<rparr>"
proof -
  have "snd (getProductByHandle e (shop s) (accessToken s) hdl w) =
        snd (executeShopifyGraphQL e (shop s) (accessToken s) GET_PRODUCT_BY_HANDLE_QUERY
               (JObj (obj [(''handle'', hdl)])) w)"
    by (simp add: getProductByHandle_def split: prod.splits sum.splits gql_data.splits)
  then show ?thesis
    by (simp add: executeShopifyGraphQL_state handle_request_def)
qed

lemma createCheckoutLink_state:
  assumes "quantities \<noteq> JNull"
  shows "snd (createCheckoutLink e (shop s) (accessToken s) (Some (JArr vs)) quantities iid w) =
     w\<lparr>outbox := outbox w @ [cart_request s vs quantities iid]\<rparr>"
proof -
  have "snd (createCheckoutLink e (shop s) (accessToken s) (Some (JArr vs)) quantities iid w) =
        snd (executeShopifyGraphQL e (shop s) (accessToken s) CREATE_CART_MUTATION
               (JObj [(''input'', cart_input vs quantities iid)]) w)"
    using assms
    by (simp add: createCheckoutLink_def
             split: prod.splits sum.splits gql_data.splits option.splits list.splits)
  then show ?thesis
    by (simp add: executeShopifyGraphQL_state cart_request_def)
qed

lemma createCheckoutLink_snd:
  "snd (createCheckoutLink e shp token variantIds quantities iid w) =
     (case variantIds of
        Some (JArr vs) \<Rightarrow>
          if quantities = JNull \<and> vs \<noteq> [] then w
          else snd (executeShopifyGraphQL e shp token CREATE_CART_MUTATION
                      (JObj [(''input'', cart_input vs quantities iid)]) w)
      | _ \<Rightarrow> w)"
proof (cases variantIds)
  case None
  then show ?thesis by (simp add: createCheckoutLink_def)
next
  case (Some v)
  show ?thesis
  proof (cases v)
    case (JArr vs)
    with Some show ?thesis
      by (simp add: createCheckoutLink_def
               split: prod.splits sum.splits gql_data.splits option.splits list.splits)
  qed (simp_all add: Some createCheckoutLink_def)
qed

lemma createCheckoutLink_at_most_one:
  "length (outbox (snd (createCheckoutLink e shp token variantIds quantities iid w)))
     \<le> Suc (length (outbox w))"
  by (simp add: createCheckoutLink_snd executeShopifyGraphQL_state
           split: option.splits json.splits)

lemma searchProducts_error:
  assumes "upstream_error e (fetch e (outbox w) (search_request s query limit)) = Some msg"
  shows "searchProducts e (shop s) (accessToken s) query (Some limit) w =
           (Inl (Error msg), w\<lparr>outbox := outbox w @ [search_request s query limit]\<rparr>)"
  using executeShopifyGraphQL_error [OF assms, of "shop s" "accessToken s" SEARCH_PRODUCTS_QUERY
      "JObj (obj [(''query'', query), (''first'', Some limit)])"]
  by (simp add: searchProducts_def search_request_def)

lemma getProductByHandle_error:
  assumes "upstream_error e (fetch e (outbox w) (handle_request s hdl)) = Some msg"
  shows "getProductByHandle e (shop s) (accessToken s) hdl w =
           (Inl (Error msg), w\<lparr>outbox := outbox w @ [handle_request s hdl]\<rparr>)"
  using executeShopifyGraphQL_error [OF assms, of "shop s" "accessToken s" GET_PRODUCT_BY_HANDLE_QUERY
      "JObj (obj [(''handle'', hdl)])"]
  by (simp add: getProductByHandle_def handle_request_def)

lemma createCheckoutLink_error:
  assumes "upstream_error e (fetch e (outbox w) (cart_request s vs quantities iid)) = Some msg"
      and "quantities \<noteq> JNull"
  shows "createCheckoutLink e (shop s) (accessToken s) (Some (JArr vs)) quantities iid w =
           (Inl (Error msg), w\<lparr>outbox := outbox w @ [cart_request s vs quantities iid]\<rparr>)"
  using executeShopifyGraphQL_error [OF assms(1), of "shop s" "accessToken s" CREATE_CART_MUTATION
      "JObj [(''input'', cart_input vs quantities iid)]"] assms(2)
  by (simp add: createCheckoutLink_def cart_request_def)

lemma createCheckoutLink_userErrors:
  assumes "fetch e (outbox w) (cart_request s vs quantities iid) = Responded r"
      and "ok r" and "http_json r = Some d" and "\<not> truthy_opt (errors d)"
      and "data d = CartCreateData c (Some (u # us))"
      and "quantities \<noteq> JNull"
  shows "createCheckoutLink e (shop s) (accessToken s) (Some (JArr vs)) quantities iid w =
           (Inl (Error (''Cart creation failed: '' @ stringify (number_text e) (JArr (u # us)))),
            w\<lparr>outbox := outbox w @ [cart_request s vs quantities iid]\<rparr>)"
  using executeShopifyGraphQL_ok [OF assms(1-4), of "shop s" "accessToken s" CREATE_CART_MUTATION
      "JObj [(''input'', cart_input vs quantities iid)]"] assms(5,6)
  by (simp add: createCheckoutLink_def cart_request_def)

lemma sublist_trans: "sublist xs ys \<Longrightarrow> sublist ys zs \<Longrightarrow> sublist xs zs"
  by (rule sublist_order.order.trans)

lemma sublist_join: "x \<in> set xs \<Longrightarrow> sublist x (join sep xs)"
proof (induction sep xs rule: join.induct)
  case (1 sep)
  then show ?case by simp
next
  case (2 sep y)
  then show ?case by simp
next
  case (3 sep y z zs)
  show ?case
  proof (cases "x = y")
    case True
    then show ?thesis by simp
  next
    case False
    with 3 have "sublist x (join sep (z # zs))" by simp
    moreover have "sublist (join sep (z # zs)) ((y @ sep) @ join sep (z # zs))"
      by (rule sublist_append_leftI)
    ultimately have "sublist x ((y @ sep) @ join sep (z # zs))"
      by (rule sublist_trans)
    then show ?thesis by simp
  qed
qed

lemma stringify_elems_map: "stringify_elems big xs = map (stringify big) xs"
  by (induction xs) simp_all

lemma sublist_stringify_elem:
  assumes "x \<in> set xs"
  shows "sublist (stringify big x) (stringify big (JArr xs))"
proof -
  have "sublist (stringify big x) (join '','' (stringify_elems big xs))"
    using assms by (simp add: sublist_join stringify_elems_map)
  moreover have "sublist (join '','' (stringify_elems big xs)) (''['' @ join '','' (stringify_elems big xs) @ '']'')"
    by (rule sublist_appendI)
  ultimately show ?thesis
    unfolding stringify.simps by (rule sublist_trans)
qed

lemma member_in_stringify_members:
  "(k, v) \<in> set kvs \<Longrightarrow> quote k @ '':'' @ stringify big v \<in> set (stringify_members big kvs)"
  by (induction kvs) auto

lemma sublist_stringify_member:
  assumes "(k, v) \<in> set kvs"
  shows "sublist (stringify big v) (stringify big (JObj kvs))"
proof -
  have a: "sublist (quote k @ '':'' @ stringify big v) (join '','' (stringify_members big kvs))"
    by (rule sublist_join [OF member_in_stringify_members [OF assms]])
  have "sublist (stringify big v) ((quote k @ '':'') @ stringify big v)"
    by (rule sublist_append_leftI)
  then have b: "sublist (stringify big v) (quote k @ '':'' @ stringify big v)"
    by simp
  have c: "sublist (join '','' (stringify_members big kvs)) (''{'' @ join '','' (stringify_members big kvs) @ ''}'')"
    by (rule sublist_appendI)
  show ?thesis
    unfolding stringify.simps by (rule sublist_trans [OF sublist_trans [OF b a] c])
qed

lemma message_in_failure:
  assumes "JObj kvs \<in> set errs" and "(''message'', JStr m) \<in> set kvs"
  shows "sublist (quote m) (''Cart creation failed: '' @ stringify big (JArr errs))"
proof -
  have a: "sublist (stringify big (JStr m)) (stringify big (JObj kvs))"
    using assms(2) by (rule sublist_stringify_member)
  have b: "sublist (stringify big (JObj kvs)) (stringify big (JArr errs))"
    using assms(1) by (rule sublist_stringify_elem)
  have c: "sublist (stringify big (JArr errs)) (''Cart creation failed: '' @ stringify big (JArr errs))"
    by (rule sublist_append_leftI)
  have "sublist (stringify big (JStr m)) (''Cart creation failed: '' @ stringify big (JArr errs))"
    by (rule sublist_trans [OF sublist_trans [OF a b] c])
  then show ?thesis by simp
qed

text \<open>
  C6. Each call of the client (\<open>searchProducts\<close>, \<open>getProductByHandle\<close>, \<open>createCheckoutLink\<close>)
  whose upstream answer has a non-success HTTP status or a populated GraphQL error list
  fails with the error of that answer. \<open>createCheckoutLink\<close> also fails when the answer
  reports user errors, and the message of its error contains, JSON-quoted, the message of
  every user error. No call is retried: each sends exactly one request (at most one for
  \<open>createCheckoutLink\<close>, which sends none when its arguments are ill-typed), whatever the
  answer is.
\<close>

theorem C6_upstream_failures_propagate:
  "(upstream_error e (fetch e (outbox w) (search_request s query limit)) = Some msg \<longrightarrow>
      searchProducts e (shop s) (accessToken s) query (Some limit) w =
        (Inl (Error msg), w\<lparr>outbox := outbox w @ [search_request s query limit]\<rparr>))
   \<and> (upstream_error e (fetch e (outbox w) (handle_request s hdl)) = Some msg \<longrightarrow>
      getProductByHandle e (shop s) (accessToken s) hdl w =
        (Inl (Error msg), w\<lparr>outbox := outbox w @ [handle_request s hdl]\<rparr>))
   \<and> (quantities \<noteq> JNull \<longrightarrow>
      upstream_error e (fetch e (outbox w) (cart_request s vs quantities iid)) = Some msg \<longrightarrow>
      createCheckoutLink e (shop s) (accessToken s) (Some (JArr vs)) quantities iid w =
        (Inl (Error msg), w\<lparr>outbox := outbox w @ [cart_request s vs quantities iid]\<rparr>))
   \<and> (quantities \<noteq> JNull \<longrightarrow>
      fetch e (outbox w) (cart_request s vs quantities iid) = Responded r \<longrightarrow>
      ok r \<longrightarrow> http_json r = Some d \<longrightarrow> \<not> truthy_opt (errors d) \<longrightarrow>
      data d = CartCreateData c (Some (u # us)) \<longrightarrow>
      createCheckoutLink e (shop s) (accessToken s) (Some (JArr vs)) quantities iid w =
        (Inl (Error (''Cart creation failed: '' @ stringify (number_text e) (JArr (u # us)))),
         w\<lparr>outbox := outbox w @ [cart_request s vs quantities iid]\<rparr>)
      \<and> (\<forall>kvs m. JObj kvs \<in> set (u # us) \<longrightarrow> (''message'', JStr m) \<in> set kvs \<longrightarrow>
             sublist (quote m) (''Cart creation failed: '' @ stringify (number_text e) (JArr (u # us)))))
   \<and> outbox (snd (searchProducts e (shop s) (accessToken s) query (Some limit) w)) =
       outbox w @ [search_request s query limit]
   \<and> outbox (snd (getProductByHandle e (shop s) (accessToken s) hdl w)) =
       outbox w @ [handle_request s hdl]
   \<and> length (outbox (snd (createCheckoutLink e shp token variantIds quantities iid w)))
       \<le> Suc (length (outbox w))"
proof (intro conjI impI allI)
  assume "upstream_error e (fetch e (outbox w) (search_request s query limit)) = Some msg"
  then show "searchProducts e (shop s) (accessToken s) query (Some limit) w =
        (Inl (Error msg), w\<lparr>outbox := outbox w @ [search_request s query limit]\<rparr>)"
    by (rule searchProducts_error)
next
  assume "upstream_error e (fetch e (outbox w) (handle_request s hdl)) = Some msg"
  then show "getProductByHandle e (shop s) (accessToken s) hdl w =
        (Inl (Error msg), w\<lparr>outbox := outbox w @ [handle_request s hdl]\<rparr>)"
    by (rule getProductByHandle_error)
next
  assume "quantities \<noteq> JNull"
     and "upstream_error e (fetch e (outbox w) (cart_request s vs quantities iid)) = Some msg"
  then show "createCheckoutLink e (shop s) (accessToken s) (Some (JArr vs)) quantities iid w =
        (Inl (Error msg), w\<lparr>outbox := outbox w @ [cart_request s vs quantities iid]\<rparr>)"
    by (simp add: createCheckoutLink_error)
next
  assume "quantities \<noteq> JNull"
     and "fetch e (outbox w) (cart_request s vs quantities iid) = Responded r"
     and "ok r" and "http_json r = Some d" and "\<not> truthy_opt (errors d)"
     and "data d = CartCreateData c (Some (u # us))"
  then show "createCheckoutLink e (shop s) (accessToken s) (Some (JArr vs)) quantities iid w =
        (Inl (Error (''Cart creation failed: '' @ stringify (number_text e) (JArr (u # us)))),
         w\<lparr>outbox := outbox w @ [cart_request s vs quantities iid]\<rparr>)"
    by (simp add: createCheckoutLink_userErrors)
next
  fix kvs m
  assume "JObj kvs \<in> set (u # us)" and "(''message'', JStr m) \<in> set kvs"
  then show "sublist (quote m) (''Cart creation failed: '' @ stringify (number_text e) (JArr (u # us)))"
    by (rule message_in_failure)
next
  show "outbox (snd (searchProducts e (shop s) (accessToken s) query (Some limit) w)) =
       outbox w @ [search_request s query limit]"
    by (simp add: searchProducts_state)
next
  show "outbox (snd (getProductByHandle e (shop s) (accessToken s) hdl w)) =
       outbox w @ [handle_request s hdl]"
    by (simp add: getProductByHandle_state)
next
  show "length (outbox (snd (createCheckoutLink e shp token variantIds quantities iid w)))
       \<le> Suc (length (outbox w))"
    by (rule createCheckoutLink_at_most_one)
qed

lemma show_nat_503: "show_nat 503 = ''503''"
  by (simp add: show_nat.simps)

theorem C6_witness:
  "upstream_error down_env (fetch down_env (outbox demo_world)
      (search_request demo_session (Some (JStr ''red dress'')) (JNum 5)))
     = Some ''Shopify API error: 503 Service Unavailable''
   \<and> searchProducts down_env (shop demo_session) (accessToken demo_session)
        (Some (JStr ''red dress'')) (Some (JNum 5)) demo_world =
        (Inl (Error ''Shopify API error: 503 Service Unavailable''),
         demo_world\<lparr>outbox := outbox demo_world
            @ [search_request demo_session (Some (JStr ''red dress'')) (JNum 5)]\<rparr>)
   \<and> upstream_error throttled_env (fetch throttled_env (outbox demo_world)
        (handle_request demo_session (Some (JStr ''red-dress''))))
     = Some (''GraphQL errors: '' @ stringify (number_text throttled_env) (JArr [JObj [(''message'', JStr ''Throttled'')]]))
   \<and> getProductByHandle throttled_env (shop demo_session) (accessToken demo_session)
        (Some (JStr ''red-dress'')) demo_world =
        (Inl (Error (''GraphQL errors: '' @ stringify (number_text throttled_env) (JArr [JObj [(''message'', JStr ''Throttled'')]]))),
         demo_world\<lparr>outbox := outbox demo_world
            @ [handle_request demo_session (Some (JStr ''red-dress''))]\<rparr>)
   \<and> createCheckoutLink invalid_env (shop demo_session) (accessToken demo_session)
        (Some (JArr [JStr ''gid://shopify/ProductVariant/1''])) (JArr [JNum 1]) ''int_0'' demo_world =
        (Inl (Error (''Cart creation failed: '' @ stringify (number_text invalid_env) (JArr [demo_user_error]))),
         demo_world\<lparr>outbox := outbox demo_world
            @ [cart_request demo_session [JStr ''gid://shopify/ProductVariant/1''] (JArr [JNum 1]) ''int_0'']\<rparr>)
   \<and> sublist (quote ''The merchandise does not exist'')
        (''Cart creation failed: '' @ stringify (number_text invalid_env) (JArr [demo_user_error]))"
proof -
  let ?sreq = "search_request demo_session (Some (JStr ''red dress'')) (JNum 5)"
  let ?hreq = "handle_request demo_session (Some (JStr ''red-dress''))"
  let ?creq = "cart_request demo_session [JStr ''gid://shopify/ProductVariant/1''] (JArr [JNum 1]) ''int_0''"
  let ?d = "\<lparr>errors = None, data = CartCreateData None (Some [demo_user_error])\<rparr>"
  let ?r = "\<lparr>http_status = 200, statusText = ''OK'', http_json = Some ?d\<rparr>"
  have a: "upstream_error down_env (fetch down_env (outbox demo_world) ?sreq)
             = Some ''Shopify API error: 503 Service Unavailable''"
    by (simp add: down_env_def demo_env_def down_fetch_def upstream_error_def show_nat_503)
  have b: "upstream_error throttled_env (fetch throttled_env (outbox demo_world) ?hreq)
             = Some (''GraphQL errors: '' @ stringify (number_text throttled_env) (JArr [JObj [(''message'', JStr ''Throttled'')]]))"
    by (simp add: throttled_env_def demo_env_def throttled_fetch_def upstream_error_def)
  have c: "fetch invalid_env (outbox demo_world) ?creq = Responded ?r"
    by (simp add: invalid_env_def demo_env_def invalid_fetch_def)
  have c1: "ok ?r" by (simp add: ok_def)
  have c2: "http_json ?r = Some ?d" by simp
  have c3: "\<not> truthy_opt (errors ?d)" by (simp add: truthy_opt_def)
  have c4: "data ?d = CartCreateData None (Some (demo_user_error # []))" by simp
  have q: "JArr [JNum 1] \<noteq> JNull" by simp
  have k: "JObj [(''code'', JStr ''INVALID''), (''field'', JArr [JStr ''input'', JStr ''lines'']),
                 (''message'', JStr ''The merchandise does not exist'')] \<in> set [demo_user_error]"
    by (simp add: demo_user_error_def)
  have k2: "(''message'', JStr ''The merchandise does not exist'') \<in>
            set [(''code'', JStr ''INVALID''), (''field'', JArr [JStr ''input'', JStr ''lines'']),
                 (''message'', JStr ''The merchandise does not exist'')]"
    by simp
  note t1 = C6_upstream_failures_propagate [of down_env demo_world demo_session
      "Some (JStr ''red dress'')" "JNum 5" "''Shopify API error: 503 Service Unavailable''"]
  note t2 = C6_upstream_failures_propagate [of throttled_env demo_world demo_session _ _
      "''GraphQL errors: '' @ stringify (number_text throttled_env) (JArr [JObj [(''message'', JStr ''Throttled'')]])"
      "Some (JStr ''red-dress'')"]
  note t3 = C6_upstream_failures_propagate [of invalid_env demo_world demo_session _ _ _ _
      "JArr [JNum 1]" "[JStr ''gid://shopify/ProductVariant/1'']" "''int_0''" ?r ?d None
      demo_user_error "[]"]
  have r1: "searchProducts down_env (shop demo_session) (accessToken demo_session)
        (Some (JStr ''red dress'')) (Some (JNum 5)) demo_world =
        (Inl (Error ''Shopify API error: 503 Service Unavailable''),
         demo_world\<lparr>outbox := outbox demo_world @ [?sreq]\<rparr>)"
    using t1 a by blast
  have r2: "getProductByHandle throttled_env (shop demo_session) (accessToken demo_session)
        (Some (JStr ''red-dress'')) demo_world =
        (Inl (Error (''GraphQL errors: '' @ stringify (number_text throttled_env) (JArr [JObj [(''message'', JStr ''Throttled'')]]))),
         demo_world\<lparr>outbox := outbox demo_world @ [?hreq]\<rparr>)"
    using t2 b by blast
  have r3: "createCheckoutLink invalid_env (shop demo_session) (accessToken demo_session)
        (Some (JArr [JStr ''gid://shopify/ProductVariant/1''])) (JArr [JNum 1]) ''int_0'' demo_world =
        (Inl (Error (''Cart creation failed: '' @ stringify (number_text invalid_env) (JArr [demo_user_error]))),
         demo_world\<lparr>outbox := outbox demo_world @ [?creq]\<rparr>)
      \<and> sublist (quote ''The merchandise does not exist'')
        (''Cart creation failed: '' @ stringify (number_text invalid_env) (JArr [demo_user_error]))"
    using t3 q c c1 c2 c3 c4 k k2 by blast
  show ?thesis
    using a b r1 r2 r3 by blast
qed

subsection \<open>Tool handlers\<close>

lemma trackMissedOpportunity_outbox:
  "outbox (snd (trackMissedOpportunity e shp term w)) = outbox w"
  by (simp add: trackMissedOpportunity_def split: option.splits json.splits)

lemma logInteraction_outbox:
  "outbox (snd (logInteraction e mid intent q cid curl pv ua w)) = outbox w"
  by (simp add: logInteraction_def Let_def split: option.splits json.splits)

lemma logInteraction_string:
  "logInteraction e mid intent (Some (JStr q)) cid curl pv ua w =
     (Inr (new_id e (next_id w)),
      w\<lparr>interactions := interactions w @
            [\<lparr>interaction_id = new_id e (next_id w), merchantId = mid, userIntent = intent,
              inputQuery = Some q, checkoutId = cid, checkoutUrl = curl, potentialValue = pv,
              userAgent = ua\<rparr>],
        next_id := Suc (next_id w)\<rparr>)"
  by (simp add: logInteraction_def Let_def)

lemma update_interaction_outbox:
  "outbox (snd (update_interaction iid f w)) = outbox w"
  by (simp add: update_interaction_def)

lemma case_search_products_outbox:
  assumes "args \<noteq> JNull"
  shows "outbox (snd (case_search_products e args s prof w)) =
           outbox w @ [search_request s (get args ''query'') (js_or (get args ''limit'') (JNum 10))]"
proof -
  let ?q = "get args ''query''" and ?l = "js_or (get args ''limit'') (JNum 10)"
  obtain r1 w1 where s1: "searchProducts e (shop s) (accessToken s) ?q (Some ?l) w = (r1, w1)"
    by force
  have o1: "outbox w1 = outbox w @ [search_request s ?q ?l]"
    using searchProducts_state [of e s ?q ?l w] s1 by simp
  show ?thesis
  proof (cases r1)
    case (Inl t)
    then show ?thesis using assms s1 o1 by (simp add: case_search_products_def)
  next
    case (Inr products)
    obtain r2 w2 where s2:
      "(if length products = 0 then trackMissedOpportunity e (shop s) ?q w1 else (Inr (), w1)) = (r2, w2)"
      by force
    have o2: "outbox w2 = outbox w1"
      using s2 trackMissedOpportunity_outbox [of e "shop s" ?q w1]
      by (auto split: if_splits)
    show ?thesis
    proof (cases r2)
      case (Inl t)
      then show ?thesis using assms s1 Inr s2 o1 o2 by (simp add: case_search_products_def)
    next
      case u: (Inr u)
      show ?thesis
      proof (cases prof)
        case None
        then show ?thesis using assms s1 Inr s2 u o1 o2 by (simp add: case_search_products_def)
      next
        case (Some p)
        obtain r3 w3 where s3:
          "logInteraction e (profile_id p) ''search_products'' ?q None None None None w2 = (r3, w3)"
          by force
        have o3: "outbox w3 = outbox w2"
          using s3 logInteraction_outbox [of e "profile_id p" "''search_products''" ?q None None None None w2]
          by simp
        show ?thesis
          using assms s1 Inr s2 u Some s3 o1 o2 o3
          by (simp add: case_search_products_def split: sum.splits option.splits)
      qed
    qed
  qed
qed

lemma get_first_search_request:
  "get (req_variables (search_request s q l)) ''first'' = Some l"
  by (cases q) (simp_all add: search_request_def)

text \<open>
  C9. A \<open>search_products\<close> call whose \<open>limit\<close> argument is absent or falsy (\<open>0\<close>, \<open>null\<close>,
  \<open>false\<close>, the empty string) sends exactly one search upstream, and its \<open>first\<close> variable
  is 10: an explicit limit of 0 is replaced by the default.
\<close>

theorem C9_falsy_limit_defaults_to_ten:
  assumes "args \<noteq> JNull" and "\<not> truthy_opt (get args ''limit'')"
  shows "outbox (snd (handleToolCall e (Some (JStr ''search_products'')) args s prof w)) =
           outbox w @ [search_request s (get args ''query'') (JNum 10)]
         \<and> get (req_variables (search_request s (get args ''query'') (JNum 10))) ''first''
             = Some (JNum 10)"
proof -
  have "js_or (get args ''limit'') (JNum 10) = JNum 10"
    using assms(2) by (simp add: js_or_def truthy_opt_def split: option.splits)
  then show ?thesis
    using case_search_products_outbox [OF assms(1), of e s prof w]
    by (simp add: handleToolCall_def get_first_search_request)
qed

theorem C9_witness:
  "zero_limit_args \<noteq> JNull
   \<and> get zero_limit_args ''limit'' = Some (JNum 0)
   \<and> \<not> truthy_opt (get zero_limit_args ''limit'')
   \<and> outbox (snd (handleToolCall demo_env (Some (JStr ''search_products'')) zero_limit_args
                    demo_session (Some demo_profile) demo_world)) =
        [search_request demo_session (Some (JStr ''red dress'')) (JNum 10)]"
proof -
  have n: "zero_limit_args \<noteq> JNull" by (simp add: zero_limit_args_def)
  have l: "get zero_limit_args ''limit'' = Some (JNum 0)" by (simp add: zero_limit_args_def)
  have f: "\<not> truthy_opt (get zero_limit_args ''limit'')"
    by (simp add: l truthy_opt_def)
  have q: "get zero_limit_args ''query'' = Some (JStr ''red dress'')"
    by (simp add: zero_limit_args_def)
  have o: "outbox demo_world = []" by (simp add: demo_world_def)
  show ?thesis
    using C9_falsy_limit_defaults_to_ten [OF n f, of demo_env demo_session "Some demo_profile" demo_world]
      n l f q o
    by simp
qed

lemma lineItems_length: "length (lineItems vs q) = length vs"
  by (simp add: lineItems_def)

lemma lineItems_nth:
  "i < length vs \<Longrightarrow> lineItems vs q ! i = (vs ! i, js_or (js_index q i) (JNum 1))"
  by (simp add: lineItems_def nth_enumerate_eq)

lemma cart_lines_cart_request:
  "cart_lines (cart_request s vs q iid) =
     map (\<lambda>item. JObj [(''merchandiseId'', fst item), (''quantity'', snd item)]) (lineItems vs q)"
  by (simp add: cart_lines_def cart_request_def cart_input_def)

lemma cart_attribute_source:
  "cart_attribute (cart_request s vs q iid) ''_source'' = Some (JStr ''universal_agent_gateway'')"
  by (simp add: cart_attribute_def cart_request_def cart_input_def)

lemma cart_attribute_interaction_id:
  "cart_attribute (cart_request s vs q iid) ''_interaction_id'' = Some (JStr iid)"
  by (simp add: cart_attribute_def cart_request_def cart_input_def)

lemma checkout_quantities_array:
  assumes "get args ''variant_ids'' = Some (JArr vs)"
  shows "checkout_quantities args =
           Some (if truthy_opt (get args ''quantities'') then the (get args ''quantities'')
                 else JArr (map (\<lambda>v. JNum 1) vs))"
  using assms by (auto simp: checkout_quantities_def truthy_opt_def split: option.splits)

lemma checkout_quantities_not_null: "checkout_quantities args = Some q \<Longrightarrow> q \<noteq> JNull"
  by (auto simp: checkout_quantities_def truthy_opt_def split: option.splits json.splits if_splits)

lemma case_create_checkout_step:
  assumes "args \<noteq> JNull" and "checkout_quantities args = Some quantities"
  shows "case_create_checkout e args s (Some p) w =
     (case createCheckoutLink e (shop s) (accessToken s) (get args ''variant_ids'') quantities
             (new_id e (next_id w))
             (w\<lparr>interactions := interactions w @
                  [\<lparr>interaction_id = new_id e (next_id w), merchantId = profile_id p,
                    userIntent = ''create_checkout'',
                    inputQuery = Some (stringify (number_text e) (JObj (obj [(''variantIds'', get args ''variant_ids''),
                                                     (''quantities'', Some quantities)]))),
                    checkoutId = None, checkoutUrl = None, potentialValue = None,
                    userAgent = None\<rparr>],
                next_id := Suc (next_id w)\<rparr>) of
        (Inl t, w2) \<Rightarrow> (Inl t, w2)
      | (Inr checkout, w2) \<Rightarrow>
          (case update_interaction (new_id e (next_id w))
                  (\<lambda>r. r\<lparr>checkoutId := Some (res_checkoutId checkout),
                         checkoutUrl := Some (res_checkoutUrl checkout),
                         potentialValue := Some (res_totalPrice checkout)\<rparr>) w2 of
             (Inl t, w3) \<Rightarrow> (Inl t, w3)
           | (Inr u, w3) \<Rightarrow>
               (Inr (content_block (checkout_text checkout)
                       (Some (JObj [(''checkoutUrl'', JStr (res_checkoutUrl checkout)),
                                    (''checkoutId'', JStr (res_checkoutId checkout)),
                                    (''totalPrice'', JStr (res_totalPrice checkout)),
                                    (''currencyCode'', JStr (res_currencyCode checkout))]))),
                w3)))"
  using assms by (simp add: case_create_checkout_def Let_def logInteraction_string)

lemma case_create_checkout_sends:
  assumes "get args ''variant_ids'' = Some (JArr vs)"
      and "quantities = (if truthy_opt (get args ''quantities'') then the (get args ''quantities'')
                         else JArr (map (\<lambda>v. JNum 1) vs))"
  shows "outbox (snd (case_create_checkout e args s (Some p) w)) =
           outbox w @ [cart_request s vs quantities (new_id e (next_id w))]"
proof -
  let ?iid = "new_id e (next_id w)"
  let ?w1 = "w\<lparr>interactions := interactions w @
                  [\<lparr>interaction_id = new_id e (next_id w), merchantId = profile_id p,
                    userIntent = ''create_checkout'',
                    inputQuery = Some (stringify (number_text e) (JObj (obj [(''variantIds'', get args ''variant_ids''),
                                                     (''quantities'', Some quantities)]))),
                    checkoutId = None, checkoutUrl = None, potentialValue = None,
                    userAgent = None\<rparr>],
                next_id := Suc (next_id w)\<rparr>"
  have n: "args \<noteq> JNull" using assms(1) by (cases args) simp_all
  have qs: "checkout_quantities args = Some quantities"
    using checkout_quantities_array [OF assms(1)] assms(2) by simp
  have qn: "quantities \<noteq> JNull"
    using qs by (rule checkout_quantities_not_null)
  obtain r2 w2 where c: "createCheckoutLink e (shop s) (accessToken s) (get args ''variant_ids'') quantities ?iid ?w1 = (r2, w2)"
    by force
  have o2: "outbox w2 = outbox w @ [cart_request s vs quantities ?iid]"
    using createCheckoutLink_state [OF qn, of e s vs ?iid ?w1] c assms(1) by simp
  have u: "\<And>f. outbox (snd (update_interaction ?iid f w2)) = outbox w2"
    by (rule update_interaction_outbox)
  have "outbox (snd (case_create_checkout e args s (Some p) w)) = outbox w2"
  proof (cases r2)
    case (Inl t)
    then show ?thesis using c by (simp add: case_create_checkout_step [OF n qs])
  next
    case (Inr checkout)
    obtain r3 w3 where up:
      "update_interaction ?iid
         (\<lambda>r. r\<lparr>checkoutId := Some (res_checkoutId checkout),
                checkoutUrl := Some (res_checkoutUrl checkout),
                potentialValue := Some (res_totalPrice checkout)\<rparr>) w2 = (r3, w3)"
      by force
    have o3: "outbox w3 = outbox w2"
      using u [of "\<lambda>r. r\<lparr>checkoutId := Some (res_checkoutId checkout),
                         checkoutUrl := Some (res_checkoutUrl checkout),
                         potentialValue := Some (res_totalPrice checkout)\<rparr>"] up
      by simp
    show ?thesis
      using c Inr up o3
      by (cases r3) (simp_all add: case_create_checkout_step [OF n qs])
  qed
  then show ?thesis using o2 by simp
qed

lemma handleToolCall_create_checkout:
  "handleToolCall e (Some (JStr ''create_checkout'')) args s prof w =
     case_create_checkout e args s prof w"
  by (simp add: handleToolCall_def)

text \<open>
  C7 (as amended). A \<open>create_checkout\<close> call whose \<open>variant_ids\<close> is an array and whose
  \<open>quantities\<close> is absent or an array sends one cart request upstream; its lines align with
  \<open>variant_ids\<close>: line \<open>i\<close> has the variant \<open>variant_ids[i]\<close>, and its quantity is
  \<open>quantities[i]\<close> when there is such an entry and it is truthy, and 1 otherwise, that is,
  when the array is absent, too short, or has 0 or \<open>null\<close> at \<open>i\<close>.
\<close>

theorem C7_line_items_positional:
  assumes "get args ''variant_ids'' = Some (JArr vs)"
      and "get args ''quantities'' = map_option JArr qs"
  shows "\<exists>req. outbox (snd (handleToolCall e (Some (JStr ''create_checkout'')) args s (Some p) w))
                  = outbox w @ [req]
               \<and> length (cart_lines req) = length vs
               \<and> (\<forall>i < length vs.
                     cart_lines req ! i =
                       JObj [(''merchandiseId'', vs ! i), (''quantity'', line_quantity qs i)])"
proof -
  define quantities where
    "quantities = (if truthy_opt (get args ''quantities'') then the (get args ''quantities'')
                   else JArr (map (\<lambda>v. JNum 1) vs))"
  let ?req = "cart_request s vs quantities (new_id e (next_id w))"
  have sent: "outbox (snd (handleToolCall e (Some (JStr ''create_checkout'')) args s (Some p) w))
                = outbox w @ [?req]"
    using case_create_checkout_sends [OF assms(1) quantities_def, of e s p w]
    by (simp add: handleToolCall_create_checkout)
  have q: "\<And>i. i < length vs \<Longrightarrow> js_or (js_index quantities i) (JNum 1) = line_quantity qs i"
  proof (cases qs)
    case None
    fix i assume "i < length vs"
    with None assms(2) show "js_or (js_index quantities i) (JNum 1) = line_quantity qs i"
      by (simp add: quantities_def truthy_opt_def js_or_def line_quantity_def)
  next
    case (Some xs)
    fix i assume "i < length vs"
    from Some assms(2) show "js_or (js_index quantities i) (JNum 1) = line_quantity qs i"
      by (simp add: quantities_def truthy_opt_def js_or_def line_quantity_def)
  qed
  have len: "length (cart_lines ?req) = length vs"
    by (simp add: cart_lines_cart_request lineItems_length)
  have nth: "\<forall>i < length vs.
               cart_lines ?req ! i = JObj [(''merchandiseId'', vs ! i), (''quantity'', line_quantity qs i)]"
    by (simp add: cart_lines_cart_request lineItems_length lineItems_nth q)
  show ?thesis
    using sent len nth by blast
qed

theorem C7_witness:
  "get checkout_args ''variant_ids'' =
     Some (JArr [JStr ''gid://shopify/ProductVariant/1'', JStr ''gid://shopify/ProductVariant/2''])
   \<and> get checkout_args ''quantities'' = map_option JArr (Some [JNum 3])
   \<and> map cart_lines
        (outbox (snd (handleToolCall demo_env (Some (JStr ''create_checkout'')) checkout_args
                        demo_session (Some demo_profile) demo_world))) =
       [[JObj [(''merchandiseId'', JStr ''gid://shopify/ProductVariant/1''), (''quantity'', JNum 3)],
         JObj [(''merchandiseId'', JStr ''gid://shopify/ProductVariant/2''), (''quantity'', JNum 1)]]]"
proof -
  let ?vs = "[JStr ''gid://shopify/ProductVariant/1'', JStr ''gid://shopify/ProductVariant/2'']"
  have v: "get checkout_args ''variant_ids'' = Some (JArr ?vs)"
    by (simp add: checkout_args_def)
  have q: "get checkout_args ''quantities'' = map_option JArr (Some [JNum 3])"
    by (simp add: checkout_args_def)
  obtain req where
    o: "outbox (snd (handleToolCall demo_env (Some (JStr ''create_checkout'')) checkout_args
                      demo_session (Some demo_profile) demo_world)) = outbox demo_world @ [req]"
    and l: "length (cart_lines req) = length ?vs"
    and n: "\<forall>i < length ?vs.
               cart_lines req ! i =
                 JObj [(''merchandiseId'', ?vs ! i), (''quantity'', line_quantity (Some [JNum 3]) i)]"
    using C7_line_items_positional [OF v q, of demo_env demo_session demo_profile demo_world]
    by blast
  have l2: "length (cart_lines req) = 2" using l by simp
  have n0: "cart_lines req ! 0 =
              JObj [(''merchandiseId'', JStr ''gid://shopify/ProductVariant/1''), (''quantity'', JNum 3)]"
    using n by (simp add: line_quantity_def)
  have n1: "cart_lines req ! 1 =
              JObj [(''merchandiseId'', JStr ''gid://shopify/ProductVariant/2''), (''quantity'', JNum 1)]"
    using n by (simp add: line_quantity_def)
  have "cart_lines req =
          [JObj [(''merchandiseId'', JStr ''gid://shopify/ProductVariant/1''), (''quantity'', JNum 3)],
           JObj [(''merchandiseId'', JStr ''gid://shopify/ProductVariant/2''), (''quantity'', JNum 1)]]"
  proof (rule nth_equalityI)
    show "length (cart_lines req) = length
          [JObj [(''merchandiseId'', JStr ''gid://shopify/ProductVariant/1''), (''quantity'', JNum 3)],
           JObj [(''merchandiseId'', JStr ''gid://shopify/ProductVariant/2''), (''quantity'', JNum 1)]]"
      using l2 by simp
  next
    fix i assume "i < length (cart_lines req)"
    then have "i = 0 \<or> i = 1" using l2 by auto
    then show "cart_lines req ! i =
          [JObj [(''merchandiseId'', JStr ''gid://shopify/ProductVariant/1''), (''quantity'', JNum 3)],
           JObj [(''merchandiseId'', JStr ''gid://shopify/ProductVariant/2''), (''quantity'', JNum 1)]] ! i"
      using n0 n1 by auto
  qed
  then show ?thesis
    using v q o by (simp add: demo_world_def)
qed

theorem C7_counterexample:
  "get zero_quantity_args ''variant_ids'' = Some (JArr [JStr ''gid://shopify/ProductVariant/1''])
   \<and> get zero_quantity_args ''quantities'' = Some (JArr [JNum 0])
   \<and> js_index (JArr [JNum 0]) 0 = Some (JNum 0)
   \<and> map cart_lines
        (outbox (snd (handleToolCall demo_env (Some (JStr ''create_checkout'')) zero_quantity_args
                        demo_session (Some demo_profile) demo_world))) =
       [[JObj [(''merchandiseId'', JStr ''gid://shopify/ProductVariant/1''), (''quantity'', JNum 1)]]]
   \<and> JNum 1 \<noteq> JNum 0"
proof -
  have v: "get zero_quantity_args ''variant_ids'' = Some (JArr [JStr ''gid://shopify/ProductVariant/1''])"
    by (simp add: zero_quantity_args_def)
  have g: "get zero_quantity_args ''quantities'' = Some (JArr [JNum 0])"
    by (simp add: zero_quantity_args_def)
  have q: "JArr [JNum 0] = (if truthy_opt (get zero_quantity_args ''quantities'')
                            then the (get zero_quantity_args ''quantities'')
                            else JArr (map (\<lambda>v. JNum 1) [JStr ''gid://shopify/ProductVariant/1'']))"
    by (simp add: g truthy_opt_def)
  have "outbox (snd (handleToolCall demo_env (Some (JStr ''create_checkout'')) zero_quantity_args
                        demo_session (Some demo_profile) demo_world)) =
          [cart_request demo_session [JStr ''gid://shopify/ProductVariant/1''] (JArr [JNum 0])
             (new_id demo_env (next_id demo_world))]"
    using case_create_checkout_sends [OF v q, of demo_env demo_session demo_profile demo_world]
    by (simp add: handleToolCall_create_checkout demo_world_def)
  then show ?thesis
    using v g by (simp add: cart_lines_cart_request lineItems_def js_or_def)
qed

lemma createCheckoutLink_Inr_array:
  assumes "createCheckoutLink e shp token variantIds quantities iid w = (Inr c, w')"
  shows "\<exists>vs. variantIds = Some (JArr vs)"
  using assms
  by (cases variantIds; cases "the variantIds") (simp_all add: createCheckoutLink_def)

lemma update_interaction_Inr:
  assumes "update_interaction iid f w = (Inr u, w')"
  shows "w' = w\<lparr>interactions := map (\<lambda>r. if interaction_id r = iid then f r else r) (interactions w)\<rparr>"
  using assms by (simp add: update_interaction_def split: if_splits)

text \<open>
  C1. When a \<open>create_checkout\<close> tool call succeeds, the only request it has sent upstream
  is the creation of a cart whose attribute \<open>_interaction_id\<close> is the id that the
  \<open>logInteraction\<close> call made just before returned, and whose attribute \<open>_source\<close> is
  \<open>universal_agent_gateway\<close>; the store holds the interaction of this id, with the checkout
  recorded on it.
\<close>

theorem C1_checkout_carries_interaction_id:
  assumes "handleToolCall e (Some (JStr ''create_checkout'')) args s prof w = (Inr r, w')"
  shows "\<exists>p vs quantities iid.
           prof = Some p
         \<and> get args ''variant_ids'' = Some (JArr vs)
         \<and> checkout_quantities args = Some quantities
         \<and> fst (logInteraction e (profile_id p) ''create_checkout''
                  (Some (JStr (stringify (number_text e) (JObj (obj [(''variantIds'', Some (JArr vs)),
                                                     (''quantities'', Some quantities)])))))
                  None None None None w) = Inr iid
         \<and> outbox w' = outbox w @ [cart_request s vs quantities iid]
         \<and> cart_attribute (cart_request s vs quantities iid) ''_interaction_id'' = Some (JStr iid)
         \<and> cart_attribute (cart_request s vs quantities iid) ''_source''
              = Some (JStr ''universal_agent_gateway'')
         \<and> (\<exists>row \<in> set (interactions w').
               interaction_id row = iid \<and> userIntent row = ''create_checkout''
               \<and> checkoutId row \<noteq> None)"
proof -
  let ?iid = "new_id e (next_id w)"
  have c0: "case_create_checkout e args s prof w = (Inr r, w')"
    using assms by (simp add: handleToolCall_def)
  have n: "args \<noteq> JNull"
    using c0 by (auto simp: case_create_checkout_def)
  obtain quantities where qs: "checkout_quantities args = Some quantities"
    using c0 n by (cases "checkout_quantities args") (simp_all add: case_create_checkout_def)
  obtain p where p: "prof = Some p"
    using c0 n qs by (cases prof) (simp_all add: case_create_checkout_def)
  let ?row = "\<lparr>interaction_id = ?iid, merchantId = profile_id p,
                userIntent = ''create_checkout'',
                inputQuery = Some (stringify (number_text e) (JObj (obj [(''variantIds'', get args ''variant_ids''),
                                                     (''quantities'', Some quantities)]))),
                checkoutId = None, checkoutUrl = None, potentialValue = None,
                userAgent = None\<rparr>"
  let ?w1 = "w\<lparr>interactions := interactions w @ [?row], next_id := Suc (next_id w)\<rparr>"
  obtain r2 w2 where cl:
    "createCheckoutLink e (shop s) (accessToken s) (get args ''variant_ids'') quantities ?iid ?w1 = (r2, w2)"
    by force
  have step: "case_create_checkout e args s (Some p) w = (Inr r, w')"
    using c0 p by simp
  obtain checkout where r2: "r2 = Inr checkout"
    using step cl by (cases r2) (simp_all add: case_create_checkout_step [OF n qs])
  let ?f = "\<lambda>r. r\<lparr>checkoutId := Some (res_checkoutId checkout),
                   checkoutUrl := Some (res_checkoutUrl checkout),
                   potentialValue := Some (res_totalPrice checkout)\<rparr>"
  obtain r3 w3 where up: "update_interaction ?iid ?f w2 = (r3, w3)"
    by force
  have r3: "r3 = Inr () \<and> w3 = w'"
    using step cl r2 up by (cases r3) (simp_all add: case_create_checkout_step [OF n qs])
  obtain vs where vs: "get args ''variant_ids'' = Some (JArr vs)"
    using createCheckoutLink_Inr_array cl r2 by blast
  have qn: "quantities \<noteq> JNull"
    using qs by (rule checkout_quantities_not_null)
  have w2: "w2 = ?w1\<lparr>outbox := outbox ?w1 @ [cart_request s vs quantities ?iid]\<rparr>"
    using createCheckoutLink_state [OF qn, of e s vs ?iid ?w1] cl vs by simp
  have w': "w' = w2\<lparr>interactions := map (\<lambda>r. if interaction_id r = ?iid then ?f r else r) (interactions w2)\<rparr>"
    using update_interaction_Inr [of ?iid ?f w2 "()" w'] up r3 by simp
  have out: "outbox w' = outbox w @ [cart_request s vs quantities ?iid]"
    by (simp add: w' w2)
  have "?f ?row \<in> set (interactions w')"
    by (simp add: w' w2)
  moreover have "interaction_id (?f ?row) = ?iid \<and> userIntent (?f ?row) = ''create_checkout''
                 \<and> checkoutId (?f ?row) \<noteq> None"
    by simp
  ultimately have row: "\<exists>row \<in> set (interactions w').
               interaction_id row = ?iid \<and> userIntent row = ''create_checkout''
               \<and> checkoutId row \<noteq> None"
    by blast
  have lg: "fst (logInteraction e (profile_id p) ''create_checkout''
                  (Some (JStr (stringify (number_text e) (JObj (obj [(''variantIds'', Some (JArr vs)),
                                                     (''quantities'', Some quantities)])))))
                  None None None None w) = Inr ?iid"
    by (simp add: logInteraction_string)
  show ?thesis
    using p vs qs lg out row cart_attribute_interaction_id [of s vs quantities ?iid]
      cart_attribute_source [of s vs quantities ?iid]
    by blast
qed


lemma demo_create_checkout_result:
  "fst (handleToolCall demo_env (Some (JStr ''create_checkout'')) checkout_args
          demo_session (Some demo_profile) demo_world) =
     Inr (content_block
            (checkout_text \<lparr>res_checkoutUrl = ''https://demo.myshopify.com/cart/c/c1'',
                             res_checkoutId = ''gid://shopify/Cart/c1'',
                             res_totalPrice = ''29.99'', res_currencyCode = ''USD''\<rparr>)
            (Some (JObj [(''checkoutUrl'', JStr ''https://demo.myshopify.com/cart/c/c1''),
                         (''checkoutId'', JStr ''gid://shopify/Cart/c1''),
                         (''totalPrice'', JStr ''29.99''),
                         (''currencyCode'', JStr ''USD'')])))"
proof -
  have n: "checkout_args \<noteq> JNull" by (simp add: checkout_args_def)
  have q: "checkout_quantities checkout_args = Some (JArr [JNum 3])"
    by (simp add: checkout_quantities_def checkout_args_def truthy_opt_def)
  have v: "get checkout_args ''variant_ids'' =
             Some (JArr [JStr ''gid://shopify/ProductVariant/1'', JStr ''gid://shopify/ProductVariant/2''])"
    by (simp add: checkout_args_def)
  show ?thesis
    unfolding handleToolCall_create_checkout case_create_checkout_step [OF n q] v
    by (simp add: createCheckoutLink_def executeShopifyGraphQL_def Let_def demo_env_def
          demo_fetch_def ok_def demo_cart_def update_interaction_def demo_world_def)
qed

theorem C1_witness:
  "fst (handleToolCall demo_env (Some (JStr ''create_checkout'')) checkout_args
          demo_session (Some demo_profile) demo_world) =
     Inr (content_block
            (checkout_text \<lparr>res_checkoutUrl = ''https://demo.myshopify.com/cart/c/c1'',
                             res_checkoutId = ''gid://shopify/Cart/c1'',
                             res_totalPrice = ''29.99'', res_currencyCode = ''USD''\<rparr>)
            (Some (JObj [(''checkoutUrl'', JStr ''https://demo.myshopify.com/cart/c/c1''),
                         (''checkoutId'', JStr ''gid://shopify/Cart/c1''),
                         (''totalPrice'', JStr ''29.99''),
                         (''currencyCode'', JStr ''USD'')])))
   \<and> map (\<lambda>req. cart_attribute req ''_interaction_id'')
        (outbox (snd (handleToolCall demo_env (Some (JStr ''create_checkout'')) checkout_args
                        demo_session (Some demo_profile) demo_world)))
       = [Some (JStr ''int_0'')]"
proof -
  let ?call = "handleToolCall demo_env (Some (JStr ''create_checkout'')) checkout_args
                 demo_session (Some demo_profile) demo_world"
  let ?r = "content_block
            (checkout_text \<lparr>res_checkoutUrl = ''https://demo.myshopify.com/cart/c/c1'',
                             res_checkoutId = ''gid://shopify/Cart/c1'',
                             res_totalPrice = ''29.99'', res_currencyCode = ''USD''\<rparr>)
            (Some (JObj [(''checkoutUrl'', JStr ''https://demo.myshopify.com/cart/c/c1''),
                         (''checkoutId'', JStr ''gid://shopify/Cart/c1''),
                         (''totalPrice'', JStr ''29.99''),
                         (''currencyCode'', JStr ''USD'')]))"
  have ok: "?call = (Inr ?r, snd ?call)"
    using demo_create_checkout_result by (simp add: prod_eq_iff)
  obtain p :: profile and vs quantities iid where
    lg: "fst (logInteraction demo_env (profile_id p) ''create_checkout''
                  (Some (JStr (stringify (number_text demo_env) (JObj (obj [(''variantIds'', Some (JArr vs)),
                                                     (''quantities'', Some quantities)])))))
                  None None None None demo_world) = Inr iid"
    and out: "outbox (snd ?call) = outbox demo_world @ [cart_request demo_session vs quantities iid]"
    and at: "cart_attribute (cart_request demo_session vs quantities iid) ''_interaction_id'' = Some (JStr iid)"
    using C1_checkout_carries_interaction_id [OF ok] by blast
  have "iid = ''int_0''"
    using lg by (simp add: logInteraction_string demo_env_def demo_new_id_def demo_world_def
                   show_nat.simps)
  then have "map (\<lambda>req. cart_attribute req ''_interaction_id'') (outbox (snd ?call))
               = [Some (JStr ''int_0'')]"
    using out at by (simp add: demo_world_def)
  then show ?thesis
    using demo_create_checkout_result by simp
qed

text \<open>
  C10. A tenant that has no profile row gets from the discovery endpoint the same response
  as a tenant whose profile has the enabled flag off: the minimal document with
  \<open>status: "disabled"\<close>, with HTTP status 200 and \<open>Cache-Control: public, max-age=300\<close>.
\<close>

theorem C10_missing_profile_is_disabled:
  assumes "\<forall>q \<in> set (profiles w1). profile_shop q \<noteq> shop s1"
      and "find (\<lambda>q. profile_shop q = shop s2) (profiles w2) = Some p"
      and "\<not> isEnabled p"
  shows "loader_ucp e1 (AuthSession (Some s1)) w1 = loader_ucp e2 (AuthSession (Some s2)) w2
         \<and> loader_ucp e1 (AuthSession (Some s1)) w1 =
             \<lparr>status = 200,
              headers = [(''Content-Type'', ''application/json''),
                         (''Cache-Control'', ''public, max-age=300'')],
              body = JObj [(''ucp_version'', JStr ''1.0''), (''status'', JStr ''disabled''),
                           (''message'', JStr ''AI Agent is currently disabled for this store.'')]\<rparr>"
proof -
  have "find (\<lambda>q. profile_shop q = shop s1) (profiles w1) = None"
    using assms(1) by (simp add: find_None_iff)
  then show ?thesis
    using assms(2,3) by (simp add: loader_ucp_def)
qed

theorem C10_witness:
  "find (\<lambda>q. profile_shop q = shop bare_session) (profiles demo_world) = None
   \<and> find (\<lambda>q. profile_shop q = shop off_session) (profiles demo_world) = Some off_profile
   \<and> \<not> isEnabled off_profile
   \<and> loader_ucp demo_env (AuthSession (Some bare_session)) demo_world =
       loader_ucp demo_env (AuthSession (Some off_session)) demo_world
   \<and> loader_ucp demo_env (AuthSession (Some bare_session)) demo_world =
             \<lparr>status = 200,
              headers = [(''Content-Type'', ''application/json''),
                         (''Cache-Control'', ''public, max-age=300'')],
              body = JObj [(''ucp_version'', JStr ''1.0''), (''status'', JStr ''disabled''),
                           (''message'', JStr ''AI Agent is currently disabled for this store.'')]\<rparr>"
proof -
  have a: "\<forall>q \<in> set (profiles demo_world). profile_shop q \<noteq> shop bare_session"
    by (simp add: demo_world_def demo_profile_def off_profile_def bare_session_def)
  have b: "find (\<lambda>q. profile_shop q = shop off_session) (profiles demo_world) = Some off_profile"
    by (simp add: demo_world_def demo_profile_def off_profile_def off_session_def)
  have c: "\<not> isEnabled off_profile"
    by (simp add: off_profile_def)
  have n: "find (\<lambda>q. profile_shop q = shop bare_session) (profiles demo_world) = None"
    using a by (simp add: find_None_iff)
  show ?thesis
    using C10_missing_profile_is_disabled [OF a b c, of demo_env demo_env] n b c
    by blast
qed

subsection \<open>Searches without result\<close>

lemma searchProducts_zero:
  assumes "zero_products (fetch e (outbox w) (search_request s query limit))"
  shows "searchProducts e (shop s) (accessToken s) query (Some limit) w =
           (Inr [], w\<lparr>outbox := outbox w @ [search_request s query limit]\<rparr>)"
proof -
  obtain r d where f: "fetch e (outbox w) (search_request s query limit) = Responded r"
    and r: "ok r" "http_json r = Some d" and d: "\<not> truthy_opt (errors d)" "data d = ProductsData []"
    using assms by (auto simp: zero_products_def split: fetch_result.splits option.splits)
  have "executeShopifyGraphQL e (shop s) (accessToken s) SEARCH_PRODUCTS_QUERY
          (JObj (obj [(''query'', query), (''first'', Some limit)])) w =
          (Inr d, w\<lparr>outbox := outbox w @ [search_request s query limit]\<rparr>)"
    using f r d(1) by (intro executeShopifyGraphQL_ok) (simp_all add: search_request_def)
  then show ?thesis
    using d(2) by (simp add: searchProducts_def)
qed

lemma case_search_products_zero:
  assumes "get args ''query'' = Some (JStr q)"
      and "zero_products (fetch e (outbox w)
             (search_request s (Some (JStr q)) (js_or (get args ''limit'') (JNum 10))))"
  shows "case_search_products e args s (Some p) w =
           (Inr (JObj [(''type'', JStr ''text''),
                       (''text'', JStr (''No products found for '' @ [CHR 0x22] @ q @ [CHR 0x22]
                                        @ ''. Try a different search term.'')),
                       (''data'', JArr [])]),
            w\<lparr>outbox := outbox w @ [search_request s (Some (JStr q)) (js_or (get args ''limit'') (JNum 10))],
              missed := upsert_missed (shop s) q (now e) (missed w),
              interactions := interactions w @
                [\<lparr>interaction_id = new_id e (next_id w), merchantId = profile_id p,
                  userIntent = ''search_products'', inputQuery = Some q, checkoutId = None,
                  checkoutUrl = None, potentialValue = None, userAgent = None\<rparr>],
              next_id := Suc (next_id w)\<rparr>)"
proof -
  have n: "args \<noteq> JNull" using assms(1) by (cases args) simp_all
  show ?thesis
    using n assms(1)
    by (simp add: case_search_products_def Let_def searchProducts_zero [OF assms(2)]
          trackMissedOpportunity_def logInteraction_string template_def content_block_def)
qed

lemma action_search_zero:
  assumes "enabled_tenant w sid s p"
      and "get b ''method'' = Some (JStr ''tools/call'')"
      and "get b ''params'' = Some ps"
      and "get ps ''name'' = Some (JStr ''search_products'')"
      and "get ps ''arguments'' = Some args"
      and "get args ''query'' = Some (JStr q)"
      and "zero_products (fetch e (outbox w)
             (search_request s (Some (JStr q)) (js_or (get args ''limit'') (JNum 10))))"
  shows "action e (Some sid) (Some b) w =
           (Inr \<lparr>status = 200, headers = [], body = no_products_envelope (get b ''id'') q\<rparr>,
            w\<lparr>outbox := outbox w @ [search_request s (Some (JStr q)) (js_or (get args ''limit'') (JNum 10))],
              missed := upsert_missed (shop s) q (now e) (missed w),
              interactions := interactions w @
                [\<lparr>interaction_id = new_id e (next_id w), merchantId = profile_id p,
                  userIntent = ''search_products'', inputQuery = Some q, checkoutId = None,
                  checkoutUrl = None, potentialValue = None, userAgent = None\<rparr>],
              next_id := Suc (next_id w)\<rparr>)"
proof -
  have psn: "ps \<noteq> JNull" using assms(4) by (cases ps) simp_all
  have a: "js_or (get ps ''arguments'') (JObj []) = args"
    using assms(5,6) by (cases args) (simp_all add: js_or_def)
  have "action_try e sid (Some b) w =
          (Inr (rpc_result (get b ''id'')
                  (JObj [(''content'',
                     JArr [JObj [(''type'', JStr ''text''),
                       (''text'', JStr (''No products found for '' @ [CHR 0x22] @ q @ [CHR 0x22]
                                        @ ''. Try a different search term.'')),
                       (''data'', JArr [])]])])),
            w\<lparr>outbox := outbox w @ [search_request s (Some (JStr q)) (js_or (get args ''limit'') (JNum 10))],
              missed := upsert_missed (shop s) q (now e) (missed w),
              interactions := interactions w @
                [\<lparr>interaction_id = new_id e (next_id w), merchantId = profile_id p,
                  userIntent = ''search_products'', inputQuery = Some q, checkoutId = None,
                  checkoutUrl = None, potentialValue = None, userAgent = None\<rparr>],
              next_id := Suc (next_id w)\<rparr>)"
    by (simp add: action_try_tools_call [OF assms(1-3) psn] assms(4) a handleToolCall_def
          case_search_products_zero [OF assms(6,7)])
  then show ?thesis
    using assms(1)
    by (simp add: action_pass enabled_nonempty rpc_result_def no_products_envelope_def)
qed

lemma missed_count_upsert_same:
  "missed_count (upsert_missed shp t n ms) shp t = missed_count ms shp t + 1"
  by (induction ms) (simp_all add: missed_count_def)

lemma rows_upsert:
  "length (filter (\<lambda>m. mo_shop m = shp \<and> searchTerm m = t) (upsert_missed shp t n ms)) =
     max 1 (length (filter (\<lambda>m. mo_shop m = shp \<and> searchTerm m = t) ms))"
  by (induction ms) auto

lemma enabled_tenant_frame:
  "sessions w' = sessions w \<Longrightarrow> profiles w' = profiles w \<Longrightarrow>
     enabled_tenant w' sid s p = enabled_tenant w sid s p"
  by (simp add: enabled_tenant_def findSession_def cong: option.case_cong)

lemma repeat_search_zero:
  assumes "get b ''method'' = Some (JStr ''tools/call'')"
      and "get b ''params'' = Some ps"
      and "get ps ''name'' = Some (JStr ''search_products'')"
      and "get ps ''arguments'' = Some args"
      and "get args ''query'' = Some (JStr q)"
      and "\<forall>sent. zero_products (fetch e sent
             (search_request s (Some (JStr q)) (js_or (get args ''limit'') (JNum 10))))"
  shows "enabled_tenant w sid s p \<Longrightarrow>
           missed_count (missed (repeat_action n e (Some sid) (Some b) w)) (shop s) q =
             missed_count (missed w) (shop s) q + int n"
proof (induction n arbitrary: w)
  case 0
  show ?case by simp
next
  case (Suc n)
  let ?w' = "snd (action e (Some sid) (Some b) w)"
  have z: "zero_products (fetch e (outbox w)
             (search_request s (Some (JStr q)) (js_or (get args ''limit'') (JNum 10))))"
    using assms(6) by blast
  note step = action_search_zero [OF Suc.prems assms(1-5) z]
  have "sessions ?w' = sessions w" and "profiles ?w' = profiles w"
    by (simp_all add: step)
  then have en: "enabled_tenant ?w' sid s p"
    using Suc.prems enabled_tenant_frame [of ?w' w sid s p] by blast
  have m: "missed ?w' = upsert_missed (shop s) q (now e) (missed w)"
    by (simp add: step)
  have "missed_count (missed (repeat_action n e (Some sid) (Some b) ?w')) (shop s) q =
          missed_count (missed ?w') (shop s) q + int n"
    using en by (rule Suc.IH)
  then show ?case
    by (simp add: m missed_count_upsert_same)
qed

text \<open>
  C4 (as amended). For an enabled tenant, a \<open>tools/call\<close> of \<open>search_products\<close> with a string
  query for which the upstream answers with no product is answered by the envelope
  \<open>{jsonrpc, id, result: {content: [{type: "text", text: "No products found for \"q\". Try a
  different search term.", data: []}]}}\<close>: the content block carries the empty product list
  as \<open>data\<close> beside \<open>type\<close> and \<open>text\<close>. The call makes exactly one upsert of the (shop, query)
  pair: the pair has one row afterwards if it had none or one before, and after \<open>n\<close> such
  calls in a row its counter has grown by \<open>n\<close>.
\<close>

theorem C4_zero_result_search:
  assumes "enabled_tenant w sid s p"
      and "get b ''method'' = Some (JStr ''tools/call'')"
      and "get b ''params'' = Some ps"
      and "get ps ''name'' = Some (JStr ''search_products'')"
      and "get ps ''arguments'' = Some args"
      and "get args ''query'' = Some (JStr q)"
      and "\<forall>sent. zero_products (fetch e sent
             (search_request s (Some (JStr q)) (js_or (get args ''limit'') (JNum 10))))"
  shows "fst (action e (Some sid) (Some b) w) =
           Inr \<lparr>status = 200, headers = [], body = no_products_envelope (get b ''id'') q\<rparr>
         \<and> missed (snd (action e (Some sid) (Some b) w)) =
             upsert_missed (shop s) q (now e) (missed w)
         \<and> length (filter (\<lambda>m. mo_shop m = shop s \<and> searchTerm m = q)
                     (missed (snd (action e (Some sid) (Some b) w)))) =
             max 1 (length (filter (\<lambda>m. mo_shop m = shop s \<and> searchTerm m = q) (missed w)))
         \<and> (\<forall>n. missed_count (missed (repeat_action n e (Some sid) (Some b) w)) (shop s) q =
                   missed_count (missed w) (shop s) q + int n)"
proof -
  have z: "zero_products (fetch e (outbox w)
             (search_request s (Some (JStr q)) (js_or (get args ''limit'') (JNum 10))))"
    using assms(7) by blast
  note step = action_search_zero [OF assms(1-6) z]
  show ?thesis
    using repeat_search_zero [OF assms(2-7) assms(1)]
    by (simp add: step rows_upsert)
qed


lemma red_dress_facts:
  "get red_dress_request ''method'' = Some (JStr ''tools/call'')"
  "get red_dress_request ''params'' =
     Some (JObj [(''name'', JStr ''search_products''),
                 (''arguments'', JObj [(''query'', JStr ''red dress''), (''limit'', JNum 5)])])"
  "get red_dress_request ''id'' = Some (JNum 1)"
  "get (JObj [(''name'', JStr ''search_products''),
              (''arguments'', JObj [(''query'', JStr ''red dress''), (''limit'', JNum 5)])]) ''name''
     = Some (JStr ''search_products'')"
  "get (JObj [(''name'', JStr ''search_products''),
              (''arguments'', JObj [(''query'', JStr ''red dress''), (''limit'', JNum 5)])]) ''arguments''
     = Some (JObj [(''query'', JStr ''red dress''), (''limit'', JNum 5)])"
  "get (JObj [(''query'', JStr ''red dress''), (''limit'', JNum 5)]) ''query'' = Some (JStr ''red dress'')"
  by (simp_all add: red_dress_request_def)

lemma demo_zero_products: "zero_products (fetch demo_env sent (search_request demo_session q l))"
  by (simp add: zero_products_def demo_env_def demo_fetch_def search_request_def ok_def truthy_opt_def)

theorem C4_witness:
  "enabled_tenant demo_world ''demo.myshopify.com'' demo_session demo_profile
   \<and> (\<forall>sent. zero_products (fetch demo_env sent
          (search_request demo_session (Some (JStr ''red dress'')) (JNum 5))))
   \<and> fst (action demo_env (Some ''demo.myshopify.com'') (Some red_dress_request) demo_world) =
       Inr \<lparr>status = 200, headers = [],
            body = JObj [(''jsonrpc'', JStr ''2.0''), (''id'', JNum 1),
                         (''result'',
                          JObj [(''content'',
                             JArr [JObj [(''type'', JStr ''text''),
                                         (''text'', JStr (''No products found for '' @ [CHR 0x22]
                                            @ ''red dress'' @ [CHR 0x22]
                                            @ ''. Try a different search term.'')),
                                         (''data'', JArr [])]])])]\<rparr>
   \<and> missed (snd (action demo_env (Some ''demo.myshopify.com'') (Some red_dress_request) demo_world)) =
       [\<lparr>mo_shop = ''demo.myshopify.com'', searchTerm = ''red dress'', mo_count = 1,
         lastSeen = 1700000000\<rparr>]
   \<and> missed_count
        (missed (repeat_action 3 demo_env (Some ''demo.myshopify.com'') (Some red_dress_request) demo_world))
        ''demo.myshopify.com'' ''red dress'' = 3"
proof -
  let ?args = "JObj [(''query'', JStr ''red dress''), (''limit'', JNum 5)]"
  have l: "js_or (get ?args ''limit'') (JNum 10) = JNum 5"
    by (simp add: js_or_def)
  have z: "\<forall>sent. zero_products (fetch demo_env sent
             (search_request demo_session (Some (JStr ''red dress'')) (js_or (get ?args ''limit'') (JNum 10))))"
    by (simp add: demo_zero_products)
  note t = C4_zero_result_search [OF demo_enabled red_dress_facts(1,2,4,5,6) z]
  have s: "shop demo_session = ''demo.myshopify.com''" by (simp add: demo_session_def)
  have r1: "fst (action demo_env (Some ''demo.myshopify.com'') (Some red_dress_request) demo_world) =
       Inr \<lparr>status = 200, headers = [],
            body = no_products_envelope (get red_dress_request ''id'') ''red dress''\<rparr>"
    using t by blast
  have r2: "missed (snd (action demo_env (Some ''demo.myshopify.com'') (Some red_dress_request) demo_world)) =
              upsert_missed (shop demo_session) ''red dress'' (now demo_env) (missed demo_world)"
    using t by blast
  have r3: "missed_count
        (missed (repeat_action 3 demo_env (Some ''demo.myshopify.com'') (Some red_dress_request) demo_world))
        (shop demo_session) ''red dress'' = missed_count (missed demo_world) (shop demo_session) ''red dress'' + int 3"
    using t by blast
  have m0: "missed demo_world = []" by (simp add: demo_world_def)
  have n: "now demo_env = 1700000000" by (simp add: demo_env_def)
  have z5: "\<forall>sent. zero_products (fetch demo_env sent
          (search_request demo_session (Some (JStr ''red dress'')) (JNum 5)))"
    by (simp add: demo_zero_products)
  have r1': "fst (action demo_env (Some ''demo.myshopify.com'') (Some red_dress_request) demo_world) =
       Inr \<lparr>status = 200, headers = [],
            body = JObj [(''jsonrpc'', JStr ''2.0''), (''id'', JNum 1),
                         (''result'',
                          JObj [(''content'',
                             JArr [JObj [(''type'', JStr ''text''),
                                         (''text'', JStr (''No products found for '' @ [CHR 0x22]
                                            @ ''red dress'' @ [CHR 0x22]
                                            @ ''. Try a different search term.'')),
                                         (''data'', JArr [])]])])]\<rparr>"
    unfolding r1 by (simp add: red_dress_facts(3) no_products_envelope_def)
  have r2': "missed (snd (action demo_env (Some ''demo.myshopify.com'') (Some red_dress_request) demo_world)) =
       [\<lparr>mo_shop = ''demo.myshopify.com'', searchTerm = ''red dress'', mo_count = 1,
         lastSeen = 1700000000\<rparr>]"
    unfolding r2 by (simp add: s m0 n)
  have r3': "missed_count
        (missed (repeat_action 3 demo_env (Some ''demo.myshopify.com'') (Some red_dress_request) demo_world))
        ''demo.myshopify.com'' ''red dress'' = 3"
    using r3 by (simp add: s m0 missed_count_def)
  show ?thesis
    using demo_enabled z5 r1' r2' r3' by blast
qed

theorem C4_counterexample:
  "fst (action demo_env (Some ''demo.myshopify.com'') (Some red_dress_request) demo_world) =
     Inr \<lparr>status = 200, headers = [],
          body = JObj [(''jsonrpc'', JStr ''2.0''), (''id'', JNum 1),
                       (''result'',
                        JObj [(''content'',
                           JArr [JObj [(''type'', JStr ''text''),
                                       (''text'', JStr (''No products found for '' @ [CHR 0x22]
                                          @ ''red dress'' @ [CHR 0x22]
                                          @ ''. Try a different search term.'')),
                                       (''data'', JArr [])]])])]\<rparr>
   \<and> JObj [(''jsonrpc'', JStr ''2.0''), (''id'', JNum 1),
            (''result'',
             JObj [(''content'',
                JArr [JObj [(''type'', JStr ''text''),
                            (''text'', JStr (''No products found for '' @ [CHR 0x22]
                               @ ''red dress'' @ [CHR 0x22]
                               @ ''. Try a different search term.'')),
                            (''data'', JArr [])]])])]
       \<noteq> spec_no_products_envelope (JNum 1) ''red dress''"
proof -
  have "fst (action demo_env (Some ''demo.myshopify.com'') (Some red_dress_request) demo_world) =
          Inr \<lparr>status = 200, headers = [],
               body = no_products_envelope (get red_dress_request ''id'') ''red dress''\<rparr>"
    using action_search_zero [OF demo_enabled red_dress_facts(1,2,4,5,6) demo_zero_products]
    by simp
  then show ?thesis
    by (simp add: red_dress_facts(3) no_products_envelope_def spec_no_products_envelope_def)
qed

end
